theory Spec2Isabelle
  imports Main "HOL-Library.Word"
begin

section \<open>Go values and run-time failures\<close>

text \<open>
  A Go function of this repository either returns or panics. The two panics that the
  modelled code could raise by itself are a method call through a nil pointer and an
  index beyond the length of a slice; both are values of \<open>go_panic\<close>, and a function
  that can reach one returns \<open>go_panic + 'a\<close>.
\<close>

datatype go_panic = NilDereference | IndexOutOfRange

text \<open>\<open>xs[i]\<close> on a slice: Go panics when \<open>i\<close> is not below \<open>len(xs)\<close>.\<close>

definition index_go :: "'a list \<Rightarrow> nat \<Rightarrow> go_panic + 'a" where
  "index_go xs i = (if i < length xs then Inr (xs ! i) else Inl IndexOutOfRange)"

type_synonym bytes = "8 word list"

text \<open>\<open>rlp.RawValue\<close> is \<open>[]byte\<close>: one encoded value, not yet decoded.\<close>

type_synonym RawValue = bytes

section \<open>The light client's capacity negotiation (package les)\<close>

subsection \<open>Collaborators\<close>

text \<open>
  \<open>enode.Node\<close> is consumed through two methods only: \<open>Seq()\<close>, the sequence number
  of the node record, and \<open>Load(enr.WithEntry("les", &les))\<close>, which fills a
  \<open>[]rlp.RawValue\<close> from the record's "les" entry or returns an error. The model keeps
  what the two methods return: \<open>Load_les = None\<close> is the error (entry absent or not a
  list), \<open>Some xs\<close> the loaded list.
\<close>

record enode_Node =
  Seq :: "64 word"
  Load_les :: "RawValue list option"

text \<open>
  \<open>p2pServer.DiscV5\<close>, the discovery v5 UDP endpoint. \<open>TalkRequest\<close> returns the reply
  bytes (its error is discarded by the caller; a request that times out gives no bytes).
  \<open>RequestENR\<close> returns a node pointer and an error: the pair of the pointer
  (\<open>None\<close> for nil) and whether the error is non-nil.
\<close>

record UDPv5 =
  TalkRequest :: "enode_Node \<Rightarrow> string \<Rightarrow> bytes \<Rightarrow> bytes"
  RequestENR :: "enode_Node \<Rightarrow> enode_Node option \<times> bool"

text \<open>Package vflux: the request batch, and the capacity query and its reply.\<close>

record vflux_Request =
  Service :: string
  Name :: string
  Params :: bytes

type_synonym Requests = "vflux_Request list"

text \<open>\<open>vflux.Replies\<close> is a slice; \<open>None\<close> is the nil slice.\<close>

type_synonym Replies = "RawValue list option"

record IntOrInf =
  Type :: "8 word"
  Value :: int

record CapacityQueryReq =
  Bias :: "64 word"
  AddTokens :: "IntOrInf list"

type_synonym CapacityQueryReply = "64 word list"

text \<open>
  Packages rlp and vflux are not part of the modelled file; what the modelled functions
  call of them is a parameter. A decoder returns \<open>None\<close> for an error.
  \<^item> \<open>EncodeRequests\<close> is \<open>rlp.EncodeToBytes(&reqs)\<close> (its error is discarded).
  \<^item> \<open>DecodeReplies\<close> is \<open>rlp.DecodeBytes(repliesEnc, &replies)\<close>.
  \<^item> \<open>DecodeUint\<close> is \<open>rlp.DecodeBytes(raw, &version)\<close> on a fresh \<open>uint\<close>, whose
    error the caller discards: on \<open>None\<close> the destination keeps its zero value.
  \<^item> \<open>vflux_Add\<close> is \<open>requests.Add(service, name, value)\<close>: the batch with the request
    added.
  \<^item> \<open>vflux_Get\<close> is \<open>replies.Get(i, &cqr)\<close> on a batch that is not nil: the decoded
    reply, or an error.
  \<^item> \<open>CapacityQueryName\<close> is the constant \<open>vflux.CapacityQueryName\<close>.
\<close>

record codec =
  EncodeRequests :: "Requests \<Rightarrow> bytes"
  DecodeReplies :: "bytes \<Rightarrow> RawValue list option"
  DecodeUint :: "RawValue \<Rightarrow> nat option"
  vflux_Add :: "Requests \<Rightarrow> string \<Rightarrow> string \<Rightarrow> CapacityQueryReq \<Rightarrow> Requests"
  vflux_Get :: "RawValue list \<Rightarrow> nat \<Rightarrow> CapacityQueryReply option"
  CapacityQueryName :: string

text \<open>
  \<open>replies.Get(i, &cqr)\<close>: by the note at its call site in \<open>prenegQuery\<close>, \<open>Get\<close>
  returns an error if \<open>replies\<close> is nil.
\<close>

definition Replies_Get :: "codec \<Rightarrow> Replies \<Rightarrow> nat \<Rightarrow> CapacityQueryReply option" where
  "Replies_Get c r i = (case r of None \<Rightarrow> None | Some xs \<Rightarrow> vflux_Get c xs i)"

subsection \<open>Life-cycle calls\<close>

text \<open>
  \<open>New\<close>, \<open>Start\<close> and \<open>Stop\<close> are sequences of calls on the client's subsystems. Each
  call is a value; the client records the calls made on it, oldest first.
\<close>

datatype new_call =
    OpenDatabase_lightchaindata | OpenDatabase_les_client | SetupGenesisBlockWithOverride
  | newServerPeerSet | NewMerger | newRequestDistributor | CreateConsensusEngine
  | NewBloomIndexer | NewShutdownTracker
  | NewServerPool bool | serverPool_AddMetrics
  | newRetrieveManager | newLesTxRelay | NewLesOdr | NewChtIndexer | NewBloomTrieIndexer
  | odr_SetIndexers | NewLightChain | NewTxPool | setupOracle
  | bloomIndexer_AddChildIndexer_bloomTrieIndexer | chtIndexer_Start | bloomIndexer_Start
  | newPruner | blockchain_SetHead | WriteChainConfig | NewOracle | newClientHandler
  | blockchain_DisableCheckFreq | NewNetAPI | RegisterAPIs | RegisterProtocols
  | RegisterLifecycle | shutdownTracker_MarkStartup

datatype start_call =
    shutdownTracker_Start | setupDiscovery | serverPool_AddSource | serverPool_Start
  | wg_Add | startBloomHandlers | handler_start

datatype stop_call =
    close_closeCh | serverPool_Stop | peers_close | reqDist_close | odr_Stop | relay_Stop
  | bloomIndexer_Close | chtIndexer_Close | blockchain_Stop | handler_stop | txPool_Stop
  | engine_Close | pruner_close | eventMux_Stop | shutdownTracker_Stop
  | chainDb_Close | lesDb_Close | wg_Wait

datatype lifecycle_call = InNew new_call | InStart start_call | InStop stop_call

subsection \<open>The client\<close>

text \<open>
  The fields of \<open>LightConfero\<close> that the modelled functions read or write:
  \<open>udpEnabled\<close>; \<open>p2pServer.DiscV5\<close>, as it stands when the function runs (the
  server sets it when discovery v5 starts; nil before); \<open>serverPool.DialNode\<close>; the
  nodes handed to \<open>serverPool.Persist\<close>; the calls made so far; and the marker kept by
  \<open>shutdownTracker\<close> in the chain database.
\<close>

record LightConfero =
  udpEnabled :: bool
  DiscV5 :: "UDPv5 option"
  DialNode :: "enode_Node \<Rightarrow> enode_Node"
  persisted :: "enode_Node list"
  calls :: "lifecycle_call list"
  marker :: bool

subsection \<open>VfluxRequest, vfxVersion, prenegQuery\<close>

definition VfluxRequest :: "codec \<Rightarrow> LightConfero \<Rightarrow> enode_Node \<Rightarrow> Requests \<Rightarrow> go_panic + Replies" where
  "VfluxRequest c s n reqs =
     (if \<not> udpEnabled s then Inr None
      else
        let reqsEnc = EncodeRequests c reqs in
        case DiscV5 s of
          None \<Rightarrow> Inl NilDereference
        | Some d \<Rightarrow>
            let repliesEnc = TalkRequest d (DialNode s n) ''vfx'' reqsEnc in
            if length repliesEnc = 0 then Inr None
            else (case DecodeReplies c repliesEnc of
                    None \<Rightarrow> Inr None
                  | Some replies \<Rightarrow> Inr (Some replies)))"

text \<open>
  The second half of \<open>vfxVersion\<close>, after the record has been settled: load the "les"
  entry, and decode its first element, whatever follows it.
\<close>

definition vfxVersion_load :: "codec \<Rightarrow> enode_Node \<Rightarrow> go_panic + nat" where
  "vfxVersion_load c n =
     (case Load_les n of
        None \<Rightarrow> Inr 0
      | Some les \<Rightarrow>
          if length les < 1 then Inr 0
          else (case index_go les 0 of
                  Inl p \<Rightarrow> Inl p
                | Inr raw \<Rightarrow>
                    Inr (case DecodeUint c raw of None \<Rightarrow> 0 | Some version \<Rightarrow> version)))"

text \<open>
  \<open>vfxVersion\<close> returns the version and the client, which has changed when a fetched
  record was handed to \<open>serverPool.Persist\<close>.
\<close>

definition vfxVersion :: "codec \<Rightarrow> LightConfero \<Rightarrow> enode_Node \<Rightarrow> (go_panic + nat) \<times> LightConfero" where
  "vfxVersion c s n =
     (if Seq n = 0 then
        (if \<not> udpEnabled s then (Inr 0, s)
         else
           case DiscV5 s of
             None \<Rightarrow> (Inl NilDereference, s)
           | Some d \<Rightarrow>
               (case RequestENR d n of
                  (None, err) \<Rightarrow> (Inr 0, s)
                | (Some n', err) \<Rightarrow>
                    if \<not> err \<and> Seq n' \<noteq> 0
                    then (vfxVersion_load c n', s\<lparr>persisted := persisted s @ [n']\<rparr>)
                    else (Inr 0, s)))
      else (vfxVersion_load c n, s))"

definition capacityQuery :: "codec \<Rightarrow> Requests" where
  "capacityQuery c =
     vflux_Add c [] ''les'' (CapacityQueryName c)
       \<lparr>Bias = 180, AddTokens = [\<lparr>Type = 0, Value = 0\<rparr>]\<rparr>"

definition prenegQuery :: "codec \<Rightarrow> LightConfero \<Rightarrow> enode_Node \<Rightarrow> (go_panic + int) \<times> LightConfero" where
  "prenegQuery c s n =
     (case vfxVersion c s n of
        (Inl p, s') \<Rightarrow> (Inl p, s')
      | (Inr version, s') \<Rightarrow>
          if version < 1 then (Inr 1, s')
          else
            (case VfluxRequest c s' n (capacityQuery c) of
               Inl p \<Rightarrow> (Inl p, s')
             | Inr replies \<Rightarrow>
                 (case Replies_Get c replies 0 of
                    None \<Rightarrow> (Inr (- 1), s')
                  | Some cqr \<Rightarrow>
                      if length cqr \<noteq> 1 then (Inr (- 1), s')
                      else (case index_go cqr 0 of
                              Inl p \<Rightarrow> (Inl p, s')
                            | Inr x \<Rightarrow> if x > 0 then (Inr 1, s') else (Inr 0, s')))))"

subsection \<open>New, Start and Stop\<close>

text \<open>
  Modelled from the spec: package internal/shutdowncheck is not under src/. The spec's
  durable-storage interface describes its marker as written on startup and cleared on
  clean shutdown; \<open>New\<close> and \<open>Stop\<close> say the same of \<open>MarkStartup\<close> (push a marker)
  and of \<open>shutdownTracker.Stop\<close> (clean shutdown marker). Every other call leaves the
  marker alone. A call is appended to the calls made so far.
\<close>

definition perform :: "lifecycle_call \<Rightarrow> LightConfero \<Rightarrow> LightConfero" where
  "perform k s =
     (let s' = s\<lparr>calls := calls s @ [k]\<rparr> in
      if k = InNew shutdownTracker_MarkStartup then s'\<lparr>marker := True\<rparr>
      else if k = InStop shutdownTracker_Stop then s'\<lparr>marker := False\<rparr>
      else s')"

definition perform_all :: "lifecycle_call list \<Rightarrow> LightConfero \<Rightarrow> LightConfero" where
  "perform_all ks s = foldl (\<lambda>s k. perform k s) s ks"

datatype les_error = ErrOpenChainDb | ErrOpenLesDb | ErrGenesis | ErrNewLightChain | ErrSetupDiscovery

datatype genesis_error = NoGenesisError | ConfigCompatError | OtherGenesisError

text \<open>
  What \<open>New\<close> reads of the node stack, the configuration and the database: whether each
  fallible constructor fails, the kind of the genesis error, \<open>P2P.DiscoveryV5\<close>, the
  server's \<open>DiscV5\<close> endpoint, how the server pool will choose dial addresses, whether
  the client handler runs in ultra light mode, and the marker a previous run left in
  the chain database.
\<close>

record node_stack =
  OpenDatabase_lightchaindata_fails :: bool
  OpenDatabase_les_client_fails :: bool
  genesisErr :: genesis_error
  NewLightChain_fails :: bool
  P2P_DiscoveryV5 :: bool
  Server_DiscV5 :: "UDPv5 option"
  ServerPool_DialNode :: "enode_Node \<Rightarrow> enode_Node"
  handler_ulc :: bool
  marker_left :: bool

definition New_until_LightChain :: "node_stack \<Rightarrow> new_call list" where
  "New_until_LightChain e =
     [OpenDatabase_lightchaindata, OpenDatabase_les_client, SetupGenesisBlockWithOverride,
      newServerPeerSet, NewMerger, newRequestDistributor, CreateConsensusEngine,
      NewBloomIndexer, NewShutdownTracker,
      NewServerPool (P2P_DiscoveryV5 e), serverPool_AddMetrics,
      newRetrieveManager, newLesTxRelay, NewLesOdr, NewChtIndexer, NewBloomTrieIndexer,
      odr_SetIndexers, NewLightChain]"

definition New_after_LightChain :: "node_stack \<Rightarrow> new_call list" where
  "New_after_LightChain e =
     [NewTxPool, setupOracle,
      bloomIndexer_AddChildIndexer_bloomTrieIndexer, chtIndexer_Start, bloomIndexer_Start,
      newPruner]
     @ (if genesisErr e = ConfigCompatError then [blockchain_SetHead, WriteChainConfig] else [])
     @ [NewOracle, newClientHandler]
     @ (if handler_ulc e then [blockchain_DisableCheckFreq] else [])
     @ [NewNetAPI, RegisterAPIs, RegisterProtocols, RegisterLifecycle,
        shutdownTracker_MarkStartup]"

text \<open>
  \<open>NewServerPool\<close> carries whether it was given \<open>prenegQuery\<close> (only when
  \<open>udpEnabled\<close>). An error return hands no client back.
\<close>

definition New :: "node_stack \<Rightarrow> les_error + LightConfero" where
  "New e =
     (if OpenDatabase_lightchaindata_fails e then Inl ErrOpenChainDb
      else if OpenDatabase_les_client_fails e then Inl ErrOpenLesDb
      else if genesisErr e = OtherGenesisError then Inl ErrGenesis
      else
        let leth = perform_all (map InNew (New_until_LightChain e))
                     \<lparr>udpEnabled = P2P_DiscoveryV5 e, DiscV5 = Server_DiscV5 e,
                      DialNode = ServerPool_DialNode e, persisted = [], calls = [],
                      marker = marker_left e\<rparr>
        in if NewLightChain_fails e then Inl ErrNewLightChain
           else Inr (perform_all (map InNew (New_after_LightChain e)) leth))"

text \<open>
  \<open>Start\<close> turns \<open>udpEnabled\<close> off when discovery v5 is not initialised. Its argument
  says whether \<open>setupDiscovery\<close> fails; the client is changed also when it does.
\<close>

definition Start :: "bool \<Rightarrow> LightConfero \<Rightarrow> LightConfero \<times> les_error option" where
  "Start setupDiscovery_fails s =
     (let s1 = perform (InStart shutdownTracker_Start) s;
          s2 = (if udpEnabled s1 \<and> DiscV5 s1 = None then s1\<lparr>udpEnabled := False\<rparr> else s1);
          s3 = perform (InStart setupDiscovery) s2
      in if setupDiscovery_fails then (s3, Some ErrSetupDiscovery)
         else (perform_all (map InStart
                 [serverPool_AddSource, serverPool_Start, wg_Add, startBloomHandlers,
                  handler_start]) s3, None))"

definition Stop_calls :: "stop_call list" where
  "Stop_calls =
     [close_closeCh, serverPool_Stop, peers_close, reqDist_close, odr_Stop, relay_Stop,
      bloomIndexer_Close, chtIndexer_Close, blockchain_Stop, handler_stop, txPool_Stop,
      engine_Close, pruner_close, eventMux_Stop, shutdownTracker_Stop,
      chainDb_Close, lesDb_Close, wg_Wait]"

text \<open>\<open>Stop\<close> always returns a nil error; the model returns the client.\<close>

definition Stop :: "LightConfero \<Rightarrow> LightConfero" where
  "Stop s = perform_all (map InStop Stop_calls) s"

text \<open>The calls a life-cycle function added to the client \<open>s\<close> it was given.\<close>

definition calls_since :: "LightConfero \<Rightarrow> LightConfero \<Rightarrow> lifecycle_call list" where
  "calls_since s s' = drop (length (calls s)) (calls s')"

text \<open>
  \<open>precedes a b xs\<close>: both \<open>a\<close> and \<open>b\<close> occur in \<open>xs\<close>, and \<open>a\<close> occurs before the
  first \<open>b\<close>.
\<close>

fun precedes :: "'a \<Rightarrow> 'a \<Rightarrow> 'a list \<Rightarrow> bool" where
  "precedes a b [] = False"
| "precedes a b (x # xs) =
     (if x = b then False else if x = a then b \<in> set xs else precedes a b xs)"

text \<open>
  The discipline \<open>Start\<close> sets up for the UDP endpoint: UDP is off, or the endpoint is
  there.
\<close>

definition udp_checked :: "LightConfero \<Rightarrow> bool" where
  "udp_checked s = (\<not> udpEnabled s \<or> DiscV5 s \<noteq> None)"

subsection \<open>The chain indexers behind AddChildIndexer\<close>

text \<open>
  Modelled from the spec: \<open>core.ChainIndexer\<close> is not under src/. The spec's chain
  indexers commit their sections one after the other, in increasing order, and a
  downstream indexer must not begin section N until the upstream's section N is
  committed. The pair below is the bloom-bits indexer (upstream) and the Bloom-Trie
  indexer (downstream): a count of sections committed upstream, and counts of sections
  begun and committed downstream (sections are numbered from 0, so a count \<open>k\<close> stands
  for the sections \<open>0 ..< k\<close>). The downstream indexer is driven by the upstream one
  only, and only once it is registered as its child: \<open>New\<close> never starts it by itself.
\<close>

record indexer_pair =
  child_registered :: bool
  upstream_committed :: nat
  downstream_begun :: nat
  downstream_committed :: nat

datatype indexer_event = Upstream_commits | Downstream_begins | Downstream_commits

text \<open>
  Modelled from the spec: one step of the indexer pair (the scheduling inside
  \<open>core.ChainIndexer\<close> is missing). The upstream indexer may always commit its next
  section. The downstream indexer begins its next section N only when it is registered,
  has committed all it began, and the upstream's section N is committed; it commits
  only a section it has begun. A step that is not allowed is \<open>None\<close>.
\<close>

fun indexer_step :: "indexer_event \<Rightarrow> indexer_pair \<Rightarrow> indexer_pair option" where
  "indexer_step Upstream_commits p = Some (p\<lparr>upstream_committed := upstream_committed p + 1\<rparr>)"
| "indexer_step Downstream_begins p =
     (if child_registered p \<and> downstream_begun p = downstream_committed p
         \<and> downstream_begun p < upstream_committed p
      then Some (p\<lparr>downstream_begun := downstream_begun p + 1\<rparr>) else None)"
| "indexer_step Downstream_commits p =
     (if downstream_committed p < downstream_begun p
      then Some (p\<lparr>downstream_committed := downstream_committed p + 1\<rparr>) else None)"

fun indexer_run :: "indexer_event list \<Rightarrow> indexer_pair \<Rightarrow> indexer_pair option" where
  "indexer_run [] p = Some p"
| "indexer_run (ev # evs) p =
     (case indexer_step ev p of None \<Rightarrow> None | Some p' \<Rightarrow> indexer_run evs p')"

text \<open>The indexers as \<open>New\<close> leaves them: nothing indexed yet.\<close>

definition indexers_of :: "LightConfero \<Rightarrow> indexer_pair" where
  "indexers_of s =
     \<lparr>child_registered =
        (InNew bloomIndexer_AddChildIndexer_bloomTrieIndexer \<in> set (calls s)),
      upstream_committed = 0, downstream_begun = 0, downstream_committed = 0\<rparr>"

section \<open>The mobile node wrapper (package gcofe)\<close>

text \<open>
  \<open>BootstrapNodes\<close> is a pointer to \<open>Enodes\<close>, a wrapper of a slice of nodes: \<open>None\<close>
  is the nil pointer. \<open>MaxPeers\<close> and \<open>ConferoDatabaseCache\<close> are Go \<open>int\<close>s, only
  compared and copied. \<open>ConferoNetworkID\<close> is an \<open>int64\<close>.
\<close>

record NodeConfig =
  BootstrapNodes :: "enode_Node list option"
  MaxPeers :: int
  ConferoEnabled :: bool
  ConferoNetworkID :: "64 word"
  ConferoGenesis :: string
  ConferoDatabaseCache :: int
  ConferoNetStats :: string
  PprofAddress :: string

text \<open>
  The parts of \<open>p2p.Config\<close>, \<open>node.Config\<close>, \<open>core.Genesis\<close> and \<open>ethconfig.Config\<close>
  that \<open>NewNode\<close> sets from its arguments. (\<open>Name\<close>, \<open>Version\<close>, \<open>KeyStoreDir\<close> and
  \<open>NAT\<close> are set from constants of other packages and from \<open>filepath.Join\<close>, and
  \<open>SyncMode\<close> is always \<open>LightSync\<close>; they are left out, and so are the two
  diagnostic calls \<open>debug.StartPProf\<close> and \<open>debug.Memsize.Add\<close>.)
\<close>

record p2p_Config =
  NoDiscovery :: bool
  DiscoveryV5 :: bool
  BootstrapNodesV5 :: "enode_Node list"
  ListenAddr :: string
  p2p_MaxPeers :: int

record node_Config =
  DataDir :: string
  P2P :: p2p_Config

datatype ChainConfig =
  ParsedChainConfig | RopstenChainConfig | SepoliaChainConfig | RinkebyChainConfig | GoerliChainConfig

record Genesis =
  parsed_from :: string
  Config :: ChainConfig

record eth_Config =
  eth_Genesis :: "Genesis option"
  NetworkId :: "64 word"
  DatabaseCache :: int

text \<open>A node that \<open>NewNode\<close> built: its stack, and the light protocol's configuration
  when the protocol was registered.\<close>

record Node =
  node :: node_Config
  les_registered :: "eth_Config option"

datatype gcofe_error =
  Panicked go_panic | NodeNewError | InvalidGenesisSpec | ConferoInitError | NetstatsInitError

text \<open>
  What \<open>NewNode\<close> takes from the rest of the repository: the foundation boot nodes, the
  four testnet genesis strings (functions of package gcofe that are not under the
  modelled file), and whether \<open>node.New\<close>, \<open>json.Unmarshal\<close>, \<open>les.New\<close> and
  \<open>ethstats.New\<close> fail on what they are given.
\<close>

record gcofe_env =
  FoundationBootnodes :: "enode_Node list"
  RopstenGenesis :: string
  SepoliaGenesis :: string
  RinkebyGenesis :: string
  GoerliGenesis :: string
  node_New_fails :: "node_Config \<Rightarrow> bool"
  json_Unmarshal_fails :: "string \<Rightarrow> bool"
  les_New_fails :: "eth_Config \<Rightarrow> bool"
  ethstats_New_fails :: "string \<Rightarrow> bool"

definition defaultNodeConfig :: "gcofe_env \<Rightarrow> NodeConfig" where
  "defaultNodeConfig env =
     \<lparr>BootstrapNodes = Some (FoundationBootnodes env), MaxPeers = 25, ConferoEnabled = True,
      ConferoNetworkID = 1, ConferoGenesis = [], ConferoDatabaseCache = 16,
      ConferoNetStats = [], PprofAddress = []\<rparr>"

definition NewNodeConfig :: "gcofe_env \<Rightarrow> NodeConfig" where
  "NewNodeConfig env = defaultNodeConfig env"

text \<open>The first lines of \<open>NewNode\<close>: defaults for what the caller left out.\<close>

definition use_defaults :: "gcofe_env \<Rightarrow> NodeConfig option \<Rightarrow> NodeConfig" where
  "use_defaults env config0 =
     (let config = (case config0 of None \<Rightarrow> NewNodeConfig env | Some cfg \<Rightarrow> cfg);
          config = (if MaxPeers config = 0
                    then config\<lparr>MaxPeers := MaxPeers (defaultNodeConfig env)\<rparr> else config)
      in if (case BootstrapNodes config of None \<Rightarrow> True | Some ns \<Rightarrow> length ns = 0)
         then config\<lparr>BootstrapNodes := BootstrapNodes (defaultNodeConfig env)\<rparr>
         else config)"

text \<open>\<open>config.BootstrapNodes.nodes\<close> reads through the pointer.\<close>

definition make_nodeConf :: "string \<Rightarrow> NodeConfig \<Rightarrow> go_panic + node_Config" where
  "make_nodeConf datadir config =
     (case BootstrapNodes config of
        None \<Rightarrow> Inl NilDereference
      | Some ns \<Rightarrow>
          Inr \<lparr>DataDir = datadir,
               P2P = \<lparr>NoDiscovery = True, DiscoveryV5 = True, BootstrapNodesV5 = ns,
                      ListenAddr = '':0'', p2p_MaxPeers = MaxPeers config\<rparr>\<rparr>)"

text \<open>
  The four testnet checks, one after the other as in the source (they are not
  alternatives of one another): each sets the chain configuration when the genesis
  string is that testnet's, and the network ID when it is still 1.
\<close>

definition testnet :: "string \<Rightarrow> ChainConfig \<Rightarrow> 64 word \<Rightarrow> Genesis \<times> NodeConfig \<Rightarrow> Genesis \<times> NodeConfig" where
  "testnet spec chain netid gc =
     (case gc of (genesis, config) \<Rightarrow>
        if ConferoGenesis config = spec
        then (genesis\<lparr>Config := chain\<rparr>,
              if ConferoNetworkID config = 1 then config\<lparr>ConferoNetworkID := netid\<rparr> else config)
        else (genesis, config))"

definition testnets :: "gcofe_env \<Rightarrow> Genesis \<times> NodeConfig \<Rightarrow> Genesis \<times> NodeConfig" where
  "testnets env gc =
     testnet (GoerliGenesis env) GoerliChainConfig 5
       (testnet (RinkebyGenesis env) RinkebyChainConfig 4
          (testnet (SepoliaGenesis env) SepoliaChainConfig 11155111
             (testnet (RopstenGenesis env) RopstenChainConfig 3 gc)))"

text \<open>
  The genesis block of \<open>NewNode\<close>: nil for an empty genesis string, an error for one
  that does not parse. The configuration comes back too, since the checks write to it.
\<close>

definition load_genesis :: "gcofe_env \<Rightarrow> NodeConfig \<Rightarrow> gcofe_error + (Genesis option \<times> NodeConfig)" where
  "load_genesis env config =
     (if ConferoGenesis config \<noteq> [] then
        (if json_Unmarshal_fails env (ConferoGenesis config) then Inl InvalidGenesisSpec
         else
           (case testnets env (\<lparr>parsed_from = ConferoGenesis config, Config = ParsedChainConfig\<rparr>, config) of
              (genesis, config') \<Rightarrow> Inr (Some genesis, config')))
      else Inr (None, config))"

text \<open>
  \<open>NewNode\<close> writes through the \<open>config\<close> pointer, so the caller sees the
  configuration change also when an error comes back: the result is the
  configuration as \<open>NewNode\<close> leaves it, and the error or the node.
\<close>

definition NewNode :: "gcofe_env \<Rightarrow> string \<Rightarrow> NodeConfig option \<Rightarrow> NodeConfig \<times> (gcofe_error + Node)" where
  "NewNode env datadir config0 =
     (let config = use_defaults env config0 in
      case make_nodeConf datadir config of
        Inl p \<Rightarrow> (config, Inl (Panicked p))
      | Inr nodeConf \<Rightarrow>
          if node_New_fails env nodeConf then (config, Inl NodeNewError)
          else
            (case load_genesis env config of
               Inl err \<Rightarrow> (config, Inl err)
             | Inr (genesis, config') \<Rightarrow>
                 if ConferoEnabled config' then
                   (let ethConf = \<lparr>eth_Genesis = genesis, NetworkId = ConferoNetworkID config',
                                   DatabaseCache = ConferoDatabaseCache config'\<rparr>
                    in if les_New_fails env ethConf then (config', Inl ConferoInitError)
                       else if ConferoNetStats config' \<noteq> []
                               \<and> ethstats_New_fails env (ConferoNetStats config')
                       then (config', Inl NetstatsInitError)
                       else (config', Inr \<lparr>node = nodeConf, les_registered = Some ethConf\<rparr>))
                 else (config', Inr \<lparr>node = nodeConf, les_registered = None\<rparr>)))"

section \<open>The Trezor messages (package trezor, generated by protoc-gen-go)\<close>

text \<open>
  A message is a struct reached through a pointer: \<open>None\<close> is the nil receiver. A
  repeated or bytes field is a slice (\<open>None\<close> is the nil slice); an optional scalar
  field is a pointer to the scalar (\<open>None\<close> when the field is unset); \<open>Node\<close> is a
  pointer to a message of another file. The bookkeeping fields \<open>XXX_...\<close> are not read
  by any getter and are left out.
\<close>

typedecl HDNodeType

text \<open>\<open>m.F\<close> through the pointer \<open>m\<close>, and \<open>*p\<close>: both panic on nil.\<close>

definition get_field :: "'m option \<Rightarrow> ('m \<Rightarrow> 'a) \<Rightarrow> go_panic + 'a" where
  "get_field m f = (case m of None \<Rightarrow> Inl NilDereference | Some r \<Rightarrow> Inr (f r))"

definition deref :: "'a option \<Rightarrow> go_panic + 'a" where
  "deref p = (case p of None \<Rightarrow> Inl NilDereference | Some v \<Rightarrow> Inr v)"

text \<open>
  The generator emits two shapes of getter. For a slice or message field:
  \<^verbatim>\<open>if m != nil { return m.F }; return nil\<close>. For an optional scalar field:
  \<^verbatim>\<open>if m != nil && m.F != nil { return *m.F }; return zero\<close>.
\<close>

definition getter_value :: "'m option \<Rightarrow> ('m \<Rightarrow> 'a) \<Rightarrow> 'a \<Rightarrow> go_panic + 'a" where
  "getter_value m f zero = (if m \<noteq> None then get_field m f else Inr zero)"

definition getter_pointer :: "'m option \<Rightarrow> ('m \<Rightarrow> 'a option) \<Rightarrow> 'a \<Rightarrow> go_panic + 'a" where
  "getter_pointer m f zero =
     (if m \<noteq> None then
        (case get_field m f of
           Inl p \<Rightarrow> Inl p
         | Inr q \<Rightarrow> if q \<noteq> None then deref q else Inr zero)
      else Inr zero)"

record ConferoGetPublicKey =
  GetPublicKey_AddressN :: "32 word list option"
  GetPublicKey_ShowDisplay :: "bool option"

definition ConferoGetPublicKey_GetAddressN :: "ConferoGetPublicKey option \<Rightarrow> go_panic + (32 word list option)" where
  "ConferoGetPublicKey_GetAddressN m = getter_value m GetPublicKey_AddressN None"

definition ConferoGetPublicKey_GetShowDisplay :: "ConferoGetPublicKey option \<Rightarrow> go_panic + bool" where
  "ConferoGetPublicKey_GetShowDisplay m = getter_pointer m GetPublicKey_ShowDisplay False"

record ConferoPublicKey =
  PublicKey_Node :: "HDNodeType option"
  PublicKey_Xpub :: "string option"

definition ConferoPublicKey_GetNode :: "ConferoPublicKey option \<Rightarrow> go_panic + (HDNodeType option)" where
  "ConferoPublicKey_GetNode m = getter_value m PublicKey_Node None"

definition ConferoPublicKey_GetXpub :: "ConferoPublicKey option \<Rightarrow> go_panic + string" where
  "ConferoPublicKey_GetXpub m = getter_pointer m PublicKey_Xpub []"

record ConferoGetAddress =
  GetAddress_AddressN :: "32 word list option"
  GetAddress_ShowDisplay :: "bool option"

definition ConferoGetAddress_GetAddressN :: "ConferoGetAddress option \<Rightarrow> go_panic + (32 word list option)" where
  "ConferoGetAddress_GetAddressN m = getter_value m GetAddress_AddressN None"

definition ConferoGetAddress_GetShowDisplay :: "ConferoGetAddress option \<Rightarrow> go_panic + bool" where
  "ConferoGetAddress_GetShowDisplay m = getter_pointer m GetAddress_ShowDisplay False"

record ConferoAddress =
  Address_AddressBin :: "bytes option"
  Address_AddressHex :: "string option"

definition ConferoAddress_GetAddressBin :: "ConferoAddress option \<Rightarrow> go_panic + (bytes option)" where
  "ConferoAddress_GetAddressBin m = getter_value m Address_AddressBin None"

definition ConferoAddress_GetAddressHex :: "ConferoAddress option \<Rightarrow> go_panic + string" where
  "ConferoAddress_GetAddressHex m = getter_pointer m Address_AddressHex []"

record ConferoSignTx =
  SignTx_AddressN :: "32 word list option"
  SignTx_Nonce :: "bytes option"
  SignTx_GasPrice :: "bytes option"
  SignTx_GasLimit :: "bytes option"
  SignTx_ToBin :: "bytes option"
  SignTx_ToHex :: "string option"
  SignTx_Value :: "bytes option"
  SignTx_DataInitialChunk :: "bytes option"
  SignTx_DataLength :: "32 word option"
  SignTx_ChainId :: "32 word option"
  SignTx_TxType :: "32 word option"

definition ConferoSignTx_GetAddressN :: "ConferoSignTx option \<Rightarrow> go_panic + (32 word list option)" where
  "ConferoSignTx_GetAddressN m = getter_value m SignTx_AddressN None"

definition ConferoSignTx_GetNonce :: "ConferoSignTx option \<Rightarrow> go_panic + (bytes option)" where
  "ConferoSignTx_GetNonce m = getter_value m SignTx_Nonce None"

definition ConferoSignTx_GetGasPrice :: "ConferoSignTx option \<Rightarrow> go_panic + (bytes option)" where
  "ConferoSignTx_GetGasPrice m = getter_value m SignTx_GasPrice None"

definition ConferoSignTx_GetGasLimit :: "ConferoSignTx option \<Rightarrow> go_panic + (bytes option)" where
  "ConferoSignTx_GetGasLimit m = getter_value m SignTx_GasLimit None"

definition ConferoSignTx_GetToBin :: "ConferoSignTx option \<Rightarrow> go_panic + (bytes option)" where
  "ConferoSignTx_GetToBin m = getter_value m SignTx_ToBin None"

definition ConferoSignTx_GetToHex :: "ConferoSignTx option \<Rightarrow> go_panic + string" where
  "ConferoSignTx_GetToHex m = getter_pointer m SignTx_ToHex []"

definition ConferoSignTx_GetValue :: "ConferoSignTx option \<Rightarrow> go_panic + (bytes option)" where
  "ConferoSignTx_GetValue m = getter_value m SignTx_Value None"

definition ConferoSignTx_GetDataInitialChunk :: "ConferoSignTx option \<Rightarrow> go_panic + (bytes option)" where
  "ConferoSignTx_GetDataInitialChunk m = getter_value m SignTx_DataInitialChunk None"

definition ConferoSignTx_GetDataLength :: "ConferoSignTx option \<Rightarrow> go_panic + (32 word)" where
  "ConferoSignTx_GetDataLength m = getter_pointer m SignTx_DataLength 0"

definition ConferoSignTx_GetChainId :: "ConferoSignTx option \<Rightarrow> go_panic + (32 word)" where
  "ConferoSignTx_GetChainId m = getter_pointer m SignTx_ChainId 0"

definition ConferoSignTx_GetTxType :: "ConferoSignTx option \<Rightarrow> go_panic + (32 word)" where
  "ConferoSignTx_GetTxType m = getter_pointer m SignTx_TxType 0"

record ConferoTxRequest =
  TxRequest_DataLength :: "32 word option"
  TxRequest_SignatureV :: "32 word option"
  TxRequest_SignatureR :: "bytes option"
  TxRequest_SignatureS :: "bytes option"

definition ConferoTxRequest_GetDataLength :: "ConferoTxRequest option \<Rightarrow> go_panic + (32 word)" where
  "ConferoTxRequest_GetDataLength m = getter_pointer m TxRequest_DataLength 0"

definition ConferoTxRequest_GetSignatureV :: "ConferoTxRequest option \<Rightarrow> go_panic + (32 word)" where
  "ConferoTxRequest_GetSignatureV m = getter_pointer m TxRequest_SignatureV 0"

definition ConferoTxRequest_GetSignatureR :: "ConferoTxRequest option \<Rightarrow> go_panic + (bytes option)" where
  "ConferoTxRequest_GetSignatureR m = getter_value m TxRequest_SignatureR None"

definition ConferoTxRequest_GetSignatureS :: "ConferoTxRequest option \<Rightarrow> go_panic + (bytes option)" where
  "ConferoTxRequest_GetSignatureS m = getter_value m TxRequest_SignatureS None"

record ConferoTxAck =
  TxAck_DataChunk :: "bytes option"

definition ConferoTxAck_GetDataChunk :: "ConferoTxAck option \<Rightarrow> go_panic + (bytes option)" where
  "ConferoTxAck_GetDataChunk m = getter_value m TxAck_DataChunk None"

record ConferoSignMessage =
  SignMessage_AddressN :: "32 word list option"
  SignMessage_Message :: "bytes option"

definition ConferoSignMessage_GetAddressN :: "ConferoSignMessage option \<Rightarrow> go_panic + (32 word list option)" where
  "ConferoSignMessage_GetAddressN m = getter_value m SignMessage_AddressN None"

definition ConferoSignMessage_GetMessage :: "ConferoSignMessage option \<Rightarrow> go_panic + (bytes option)" where
  "ConferoSignMessage_GetMessage m = getter_value m SignMessage_Message None"

record ConferoMessageSignature =
  MessageSignature_AddressBin :: "bytes option"
  MessageSignature_Signature :: "bytes option"
  MessageSignature_AddressHex :: "string option"

definition ConferoMessageSignature_GetAddressBin :: "ConferoMessageSignature option \<Rightarrow> go_panic + (bytes option)" where
  "ConferoMessageSignature_GetAddressBin m = getter_value m MessageSignature_AddressBin None"

definition ConferoMessageSignature_GetSignature :: "ConferoMessageSignature option \<Rightarrow> go_panic + (bytes option)" where
  "ConferoMessageSignature_GetSignature m = getter_value m MessageSignature_Signature None"

definition ConferoMessageSignature_GetAddressHex :: "ConferoMessageSignature option \<Rightarrow> go_panic + string" where
  "ConferoMessageSignature_GetAddressHex m = getter_pointer m MessageSignature_AddressHex []"

record ConferoVerifyMessage =
  VerifyMessage_AddressBin :: "bytes option"
  VerifyMessage_Signature :: "bytes option"
  VerifyMessage_Message :: "bytes option"
  VerifyMessage_AddressHex :: "string option"

definition ConferoVerifyMessage_GetAddressBin :: "ConferoVerifyMessage option \<Rightarrow> go_panic + (bytes option)" where
  "ConferoVerifyMessage_GetAddressBin m = getter_value m VerifyMessage_AddressBin None"

definition ConferoVerifyMessage_GetSignature :: "ConferoVerifyMessage option \<Rightarrow> go_panic + (bytes option)" where
  "ConferoVerifyMessage_GetSignature m = getter_value m VerifyMessage_Signature None"

definition ConferoVerifyMessage_GetMessage :: "ConferoVerifyMessage option \<Rightarrow> go_panic + (bytes option)" where
  "ConferoVerifyMessage_GetMessage m = getter_value m VerifyMessage_Message None"

definition ConferoVerifyMessage_GetAddressHex :: "ConferoVerifyMessage option \<Rightarrow> go_panic + string" where
  "ConferoVerifyMessage_GetAddressHex m = getter_pointer m VerifyMessage_AddressHex []"

section \<open>Derived notions and concrete values\<close>

text \<open>
  The record whose "les" entry \<open>vfxVersion\<close> reads: the node's own when its sequence
  number is not 0; otherwise the one that \<open>RequestENR\<close> fetches, when UDP is enabled
  and the fetch gives a record with a sequence number that is not 0; otherwise none.
\<close>

definition consulted_record :: "LightConfero \<Rightarrow> enode_Node \<Rightarrow> enode_Node option" where
  "consulted_record s n =
     (if Seq n \<noteq> 0 then Some n
      else if \<not> udpEnabled s then None
      else (case DiscV5 s of
              None \<Rightarrow> None
            | Some d \<Rightarrow>
                (case RequestENR d n of
                   (None, err) \<Rightarrow> None
                 | (Some n', err) \<Rightarrow> if \<not> err \<and> Seq n' \<noteq> 0 then Some n' else None)))"

text \<open>
  Concrete collaborators for the instances below. The toy codec reads a one-byte string
  as the number of its byte and refuses any other string as a number; it refuses a
  reply batch that starts with the byte 255, and takes any other batch as one reply,
  whose bytes are the values of the reply.
  The endpoint answers every request with the same bytes and fetches no record.
\<close>

definition toy_codec :: codec where
  "toy_codec =
     \<lparr>EncodeRequests = (\<lambda>reqs. concat (map Params reqs)),
      DecodeReplies = (\<lambda>b. case b of [] \<Rightarrow> None | x # _ \<Rightarrow> if x = 255 then None else Some [b]),
      DecodeUint = (\<lambda>raw. case raw of [b] \<Rightarrow> Some (unat b) | _ \<Rightarrow> None),
      vflux_Add = (\<lambda>reqs service name q.
                     reqs @ [\<lparr>Service = service, Name = name, Params = [ucast (Bias q)]\<rparr>]),
      vflux_Get = (\<lambda>xs i. if i < length xs then Some (map ucast (xs ! i)) else None),
      CapacityQueryName = ''cq''\<rparr>"

definition endpoint :: "bytes \<Rightarrow> UDPv5" where
  "endpoint reply = \<lparr>TalkRequest = (\<lambda>n protocol req. reply), RequestENR = (\<lambda>n. (None, True))\<rparr>"

definition client :: "bool \<Rightarrow> UDPv5 option \<Rightarrow> LightConfero" where
  "client udp d =
     \<lparr>udpEnabled = udp, DiscV5 = d, DialNode = (\<lambda>n. n), persisted = [], calls = [],
      marker = False\<rparr>"

definition les_node :: "64 word \<Rightarrow> RawValue list \<Rightarrow> enode_Node" where
  "les_node seq les = \<lparr>Seq = seq, Load_les = Some les\<rparr>"

text \<open>A node stack on which every constructor of \<open>New\<close> succeeds.\<close>

definition fresh_stack :: node_stack where
  "fresh_stack =
     \<lparr>OpenDatabase_lightchaindata_fails = False, OpenDatabase_les_client_fails = False,
      genesisErr = NoGenesisError, NewLightChain_fails = False, P2P_DiscoveryV5 = True,
      Server_DiscV5 = None, ServerPool_DialNode = (\<lambda>n. n), handler_ulc = False,
      marker_left = False\<rparr>"

text \<open>
  An environment for \<open>NewNode\<close> with four different genesis strings, where \<open>node.New\<close>
  fails on an empty data directory only, and a configuration with \<open>MaxPeers\<close> 0.
\<close>

definition toy_env :: gcofe_env where
  "toy_env =
     \<lparr>FoundationBootnodes = [\<lparr>Seq = 1, Load_les = None\<rparr>],
      RopstenGenesis = ''{ropsten}'', SepoliaGenesis = ''{sepolia}'',
      RinkebyGenesis = ''{rinkeby}'', GoerliGenesis = ''{goerli}'',
      node_New_fails = (\<lambda>nc. DataDir nc = []),
      json_Unmarshal_fails = (\<lambda>spec. take 1 spec \<noteq> ''{''),
      les_New_fails = (\<lambda>ec. False),
      ethstats_New_fails = (\<lambda>url. False)\<rparr>"

definition zero_config :: "64 word \<Rightarrow> string \<Rightarrow> NodeConfig" where
  "zero_config netid spec =
     \<lparr>BootstrapNodes = None, MaxPeers = 0, ConferoEnabled = True, ConferoNetworkID = netid,
      ConferoGenesis = spec, ConferoDatabaseCache = 16, ConferoNetStats = [],
      PprofAddress = []\<rparr>"

section \<open>Capacity negotiation: results\<close>

lemma index_go_Cons0: "index_go (x # xs) 0 = Inr x"
  by (simp add: index_go_def)

lemma index_go_single: "length xs = 1 \<Longrightarrow> index_go xs 0 = Inr (hd xs)"
  by (cases xs) (simp_all add: index_go_def)

lemma vfxVersion_load_Cons:
  "Load_les n = Some (raw # extra) \<Longrightarrow>
     vfxVersion_load c n = Inr (case DecodeUint c raw of None \<Rightarrow> 0 | Some v \<Rightarrow> v)"
  by (simp add: vfxVersion_load_def index_go_Cons0)

lemma vfxVersion_load_None: "Load_les n = None \<Longrightarrow> vfxVersion_load c n = Inr 0"
  by (simp add: vfxVersion_load_def)

lemma vfxVersion_load_Nil: "Load_les n = Some [] \<Longrightarrow> vfxVersion_load c n = Inr 0"
  by (simp add: vfxVersion_load_def)

lemma vfxVersion_load_total: "\<exists>v. vfxVersion_load c n = Inr v"
proof (cases "Load_les n")
  case None
  then show ?thesis by (simp add: vfxVersion_load_None)
next
  case (Some les)
  then show ?thesis
    by (cases les) (simp_all add: vfxVersion_load_Nil vfxVersion_load_Cons)
qed

lemma vfxVersion_load_zero:
  "vfxVersion_load c r = Inr 0 \<longleftrightarrow>
     (case Load_les r of
        None \<Rightarrow> True
      | Some [] \<Rightarrow> True
      | Some (raw # extra) \<Rightarrow> DecodeUint c raw = None \<or> DecodeUint c raw = Some 0)"
  by (auto simp: vfxVersion_load_None vfxVersion_load_Nil vfxVersion_load_Cons
           split: option.splits list.splits)

lemma vfxVersion_consulted:
  "udp_checked s \<Longrightarrow>
     fst (vfxVersion c s n) =
       (case consulted_record s n of None \<Rightarrow> Inr 0 | Some r \<Rightarrow> vfxVersion_load c r)"
  by (auto simp: vfxVersion_def consulted_record_def udp_checked_def
           split: option.splits prod.splits)

lemma vfxVersion_client:
  "udpEnabled (snd (vfxVersion c s n)) = udpEnabled s \<and>
   DiscV5 (snd (vfxVersion c s n)) = DiscV5 s \<and>
   DialNode (snd (vfxVersion c s n)) = DialNode s \<and>
   calls (snd (vfxVersion c s n)) = calls s \<and>
   marker (snd (vfxVersion c s n)) = marker s"
  by (auto simp: vfxVersion_def split: option.splits prod.splits)

lemma VfluxRequest_cong:
  "udpEnabled s' = udpEnabled s \<Longrightarrow> DiscV5 s' = DiscV5 s \<Longrightarrow> DialNode s' = DialNode s \<Longrightarrow>
     VfluxRequest c s' n reqs = VfluxRequest c s n reqs"
  by (cases "DiscV5 s") (simp_all add: VfluxRequest_def)

lemma VfluxRequest_after_vfxVersion:
  "VfluxRequest c (snd (vfxVersion c s n)) m reqs = VfluxRequest c s m reqs"
  by (rule VfluxRequest_cong) (simp_all add: vfxVersion_client)

lemma VfluxRequest_total: "udp_checked s \<Longrightarrow> \<exists>r. VfluxRequest c s n reqs = Inr r"
  by (auto simp: VfluxRequest_def udp_checked_def Let_def split: option.splits)

lemma prenegQuery_unfold:
  "fst (prenegQuery c s n) =
     (case fst (vfxVersion c s n) of
        Inl p \<Rightarrow> Inl p
      | Inr version \<Rightarrow>
          if version < 1 then Inr 1
          else
            (case VfluxRequest c s n (capacityQuery c) of
               Inl p \<Rightarrow> Inl p
             | Inr replies \<Rightarrow>
                 (case Replies_Get c replies 0 of
                    None \<Rightarrow> Inr (- 1)
                  | Some cqr \<Rightarrow>
                      if length cqr \<noteq> 1 then Inr (- 1)
                      else if hd cqr > 0 then Inr 1 else Inr 0)))"
proof -
  obtain r s' where v: "vfxVersion c s n = (r, s')" by (cases "vfxVersion c s n")
  have req: "VfluxRequest c s' n (capacityQuery c) = VfluxRequest c s n (capacityQuery c)"
    using VfluxRequest_after_vfxVersion [of c s n n "capacityQuery c"] v by simp
  show ?thesis
    by (simp add: prenegQuery_def v req index_go_single split: sum.splits option.splits)
qed

lemma prenegQuery_total: "udp_checked s \<Longrightarrow> \<exists>q. fst (prenegQuery c s n) = Inr q"
proof -
  assume ok: "udp_checked s"
  obtain r where r: "VfluxRequest c s n (capacityQuery c) = Inr r"
    using VfluxRequest_total [OF ok] by blast
  obtain v where v: "fst (vfxVersion c s n) = Inr v"
    using vfxVersion_consulted [OF ok, of c n] vfxVersion_load_total [of c]
    by (cases "consulted_record s n") auto
  show ?thesis
    by (simp add: prenegQuery_unfold r v split: option.splits)
qed

lemma silent_version:
  "fst (vfxVersion toy_codec (client True (Some (endpoint []))) (les_node 1 [[1]])) = Inr 1"
  by (simp add: vfxVersion_def les_node_def vfxVersion_load_def index_go_def toy_codec_def)

lemma silent_request:
  "VfluxRequest toy_codec (client True (Some (endpoint []))) (les_node 1 [[1]])
     (capacityQuery toy_codec) = Inr None"
  by (simp add: VfluxRequest_def client_def endpoint_def)

text \<open>\<open>Start\<close> leaves the client with UDP off or with the endpoint there.\<close>

lemma Start_udp_checked: "udp_checked (fst (Start b s))"
  by (simp add: Start_def udp_checked_def perform_def perform_all_def Let_def)

text \<open>
  C1, as the code has it. A candidate that supports negotiation (\<open>vfxVersion\<close> at
  least 1) and whose capacity query gets no decodable reply (\<open>VfluxRequest\<close> returns
  nil) makes \<open>prenegQuery\<close> return -1. That is a value of its own: it is not the 1 that
  \<open>prenegQuery\<close> returns for a candidate without negotiation.
\<close>

theorem prenegQuery_no_reply:
  "fst (vfxVersion c s n) = Inr v \<Longrightarrow> 1 \<le> v \<Longrightarrow>
   VfluxRequest c s n (capacityQuery c) = Inr None \<Longrightarrow>
     fst (prenegQuery c s n) = Inr (- 1) \<and> fst (prenegQuery c s n) \<noteq> Inr 1"
  by (simp add: prenegQuery_unfold Replies_Get_def)

theorem prenegQuery_no_reply_witness:
  "fst (prenegQuery toy_codec (client True (Some (endpoint []))) (les_node 1 [[1]])) = Inr (- 1)"
  using prenegQuery_no_reply [OF silent_version _ silent_request] by simp

text \<open>
  The claim that a missing reply gives the same result 1 as an unsupported candidate
  fails: the node below advertises version 1, the endpoint returns no bytes, and the
  result is not 1.
\<close>

theorem prenegQuery_no_reply_counterexample:
  "VfluxRequest toy_codec (client True (Some (endpoint []))) (les_node 1 [[1]])
     (capacityQuery toy_codec) = Inr None \<and>
   fst (prenegQuery toy_codec (client True (Some (endpoint []))) (les_node 1 [[1]])) \<noteq> Inr 1"
  by (simp add: prenegQuery_unfold silent_version silent_request Replies_Get_def)

text \<open>
  C2. \<open>prenegQuery\<close> returns 1 whenever the advertised version is below 1. When the
  version is at least 1 and reply 0 of the capacity query decodes to exactly one value
  \<open>x\<close>, it returns 0 exactly when \<open>x\<close> is 0, and 1 exactly when \<open>x\<close> is positive.
\<close>

theorem prenegQuery_outcomes:
  "(fst (vfxVersion c s n) = Inr v \<and> v < 1 \<longrightarrow> fst (prenegQuery c s n) = Inr 1) \<and>
   (fst (vfxVersion c s n) = Inr v \<and> 1 \<le> v
      \<and> VfluxRequest c s n (capacityQuery c) = Inr replies
      \<and> Replies_Get c replies 0 = Some [x]
    \<longrightarrow> (fst (prenegQuery c s n) = Inr 0 \<longleftrightarrow> x = 0)
        \<and> (fst (prenegQuery c s n) = Inr 1 \<longleftrightarrow> 0 < x))"
  by (simp add: prenegQuery_unfold word_gt_0)

theorem prenegQuery_outcomes_witness:
  "fst (prenegQuery toy_codec (client True (Some (endpoint [0]))) (les_node 1 [[1]])) = Inr 0 \<and>
   fst (prenegQuery toy_codec (client True (Some (endpoint [5]))) (les_node 1 [[1]])) = Inr 1 \<and>
   fst (prenegQuery toy_codec (client True (Some (endpoint [5]))) (les_node 1 [[0]])) = Inr 1"
proof -
  have ver: "\<And>reply b. fst (vfxVersion toy_codec (client True (Some (endpoint reply))) (les_node 1 [[b]]))
               = Inr (unat b)"
    by (simp add: vfxVersion_def les_node_def vfxVersion_load_def index_go_def toy_codec_def)
  have req: "\<And>b n. VfluxRequest toy_codec (client True (Some (endpoint [b]))) n
               (capacityQuery toy_codec) = Inr (if b = 255 then None else Some [[b]])"
    by (simp add: VfluxRequest_def client_def endpoint_def toy_codec_def)
  have get: "\<And>b. Replies_Get toy_codec (Some [[b]]) 0 = Some [ucast b]"
    by (simp add: Replies_Get_def toy_codec_def)
  have busy: "fst (prenegQuery toy_codec (client True (Some (endpoint [0]))) (les_node 1 [[1]])) = Inr 0"
    using prenegQuery_outcomes [of toy_codec "client True (Some (endpoint [0]))"
        "les_node 1 [[1]]" 1 "Some [[0]]" 0]
    by (simp add: ver req get)
  have avail: "fst (prenegQuery toy_codec (client True (Some (endpoint [5]))) (les_node 1 [[1]])) = Inr 1"
    using prenegQuery_outcomes [of toy_codec "client True (Some (endpoint [5]))"
        "les_node 1 [[1]]" 1 "Some [[5]]" 5]
    by (simp add: ver req get)
  have unsup: "fst (prenegQuery toy_codec (client True (Some (endpoint [5]))) (les_node 1 [[0]])) = Inr 1"
    using prenegQuery_outcomes [of toy_codec "client True (Some (endpoint [5]))"
        "les_node 1 [[0]]" 0 None 0]
    by (simp add: ver)
  show ?thesis using busy avail unsup by simp
qed

text \<open>
  C5. On a client where UDP is off or the discovery endpoint is there (what \<open>Start\<close>
  sets up before the server pool runs any query), for every node and every reply:
  \<open>VfluxRequest\<close>, \<open>vfxVersion\<close> and \<open>prenegQuery\<close> return without a panic;
  \<open>VfluxRequest\<close> returns nil when UDP is disabled, when the reply is empty and when
  the reply does not decode; \<open>vfxVersion\<close> returns 0 when no record can be consulted
  (the ENR cannot be fetched), and when the record's "les" entry fails to load, is
  empty, or starts with an element that does not decode.
\<close>

theorem negotiation_total:
  assumes "udp_checked s"
  shows "(\<exists>r. VfluxRequest c s n reqs = Inr r)
       \<and> (\<exists>v. fst (vfxVersion c s n) = Inr v)
       \<and> (\<exists>q. fst (prenegQuery c s n) = Inr q)
       \<and> (\<not> udpEnabled s \<longrightarrow> VfluxRequest c s n reqs = Inr None)
       \<and> (\<forall>d. DiscV5 s = Some d
              \<and> (TalkRequest d (DialNode s n) ''vfx'' (EncodeRequests c reqs) = []
                 \<or> DecodeReplies c (TalkRequest d (DialNode s n) ''vfx'' (EncodeRequests c reqs)) = None)
            \<longrightarrow> VfluxRequest c s n reqs = Inr None)
       \<and> (consulted_record s n = None \<longrightarrow> fst (vfxVersion c s n) = Inr 0)
       \<and> (\<forall>r. consulted_record s n = Some r
              \<and> (Load_les r = None \<or> Load_les r = Some []
                 \<or> (\<exists>raw extra. Load_les r = Some (raw # extra) \<and> DecodeUint c raw = None))
            \<longrightarrow> fst (vfxVersion c s n) = Inr 0)"
proof -
  have a: "\<exists>r. VfluxRequest c s n reqs = Inr r"
    by (rule VfluxRequest_total [OF assms])
  have b: "\<exists>v. fst (vfxVersion c s n) = Inr v"
    using vfxVersion_consulted [OF assms, of c n] vfxVersion_load_total [of c]
    by (cases "consulted_record s n") auto
  have c: "\<exists>q. fst (prenegQuery c s n) = Inr q"
    by (rule prenegQuery_total [OF assms])
  have d: "\<not> udpEnabled s \<longrightarrow> VfluxRequest c s n reqs = Inr None"
    by (simp add: VfluxRequest_def)
  have e: "\<forall>d. DiscV5 s = Some d
              \<and> (TalkRequest d (DialNode s n) ''vfx'' (EncodeRequests c reqs) = []
                 \<or> DecodeReplies c (TalkRequest d (DialNode s n) ''vfx'' (EncodeRequests c reqs)) = None)
            \<longrightarrow> VfluxRequest c s n reqs = Inr None"
    by (auto simp: VfluxRequest_def Let_def)
  have f: "consulted_record s n = None \<longrightarrow> fst (vfxVersion c s n) = Inr 0"
    by (simp add: vfxVersion_consulted [OF assms])
  have g: "\<forall>r. consulted_record s n = Some r
              \<and> (Load_les r = None \<or> Load_les r = Some []
                 \<or> (\<exists>raw extra. Load_les r = Some (raw # extra) \<and> DecodeUint c raw = None))
            \<longrightarrow> fst (vfxVersion c s n) = Inr 0"
    by (auto simp: vfxVersion_consulted [OF assms] vfxVersion_load_zero)
  show ?thesis using a b c d e f g by blast
qed

theorem negotiation_total_witness:
  "udp_checked (client True (Some (endpoint [255]))) \<and>
   VfluxRequest toy_codec (client True (Some (endpoint [255]))) (les_node 0 []) [] = Inr None \<and>
   fst (vfxVersion toy_codec (client True (Some (endpoint [255]))) (les_node 0 [])) = Inr 0 \<and>
   fst (vfxVersion toy_codec (client True (Some (endpoint [255]))) (les_node 1 [[1, 1]])) = Inr 0"
proof -
  let ?s = "client True (Some (endpoint [255]))"
  have ok: "udp_checked ?s" by (simp add: udp_checked_def client_def)
  have d: "DiscV5 ?s = Some (endpoint [255])" by (simp add: client_def)
  have und: "DecodeReplies toy_codec (TalkRequest (endpoint [255]) (DialNode ?s (les_node 0 []))
               ''vfx'' (EncodeRequests toy_codec [])) = None"
    by (simp add: endpoint_def toy_codec_def)
  have none: "consulted_record ?s (les_node 0 []) = None"
    by (simp add: consulted_record_def client_def endpoint_def les_node_def)
  have some: "consulted_record ?s (les_node 1 [[1, 1]]) = Some (les_node 1 [[1, 1]])"
    by (simp add: consulted_record_def les_node_def)
  have bad: "Load_les (les_node 1 [[1, 1]]) = Some ([1, 1] # []) \<and> DecodeUint toy_codec [1, 1] = None"
    by (simp add: les_node_def toy_codec_def)
  have 1: "VfluxRequest toy_codec ?s (les_node 0 []) [] = Inr None"
    using negotiation_total [OF ok, of toy_codec "les_node 0 []" "[]"] d und by blast
  have 2: "fst (vfxVersion toy_codec ?s (les_node 0 [])) = Inr 0"
    using negotiation_total [OF ok, of toy_codec "les_node 0 []" "[]"] none by blast
  have 3: "fst (vfxVersion toy_codec ?s (les_node 1 [[1, 1]])) = Inr 0"
    using negotiation_total [OF ok, of toy_codec "les_node 1 [[1, 1]]" "[]"] some bad by blast
  show ?thesis using ok 1 2 3 by simp
qed

text \<open>
  C6, as the code has it. On a client where UDP is off or the discovery endpoint is
  there: when the record that \<open>vfxVersion\<close> consults has a "les" entry whose first
  element decodes to the version \<open>v\<close>, \<open>vfxVersion\<close> returns \<open>v\<close>, whatever elements
  follow. It returns 0 exactly when no record can be consulted, or the entry fails to
  load or is empty, or the first element does not decode or decodes to 0.
\<close>

theorem vfxVersion_first_field:
  assumes "udp_checked s"
  shows "(\<forall>r raw extra v. consulted_record s n = Some r \<and> Load_les r = Some (raw # extra)
              \<and> DecodeUint c raw = Some v \<longrightarrow> fst (vfxVersion c s n) = Inr v)
       \<and> (fst (vfxVersion c s n) = Inr 0 \<longleftrightarrow>
            (case consulted_record s n of
               None \<Rightarrow> True
             | Some r \<Rightarrow>
                 (case Load_les r of
                    None \<Rightarrow> True
                  | Some [] \<Rightarrow> True
                  | Some (raw # extra) \<Rightarrow> DecodeUint c raw = None \<or> DecodeUint c raw = Some 0)))"
proof -
  have a: "\<forall>r raw extra v. consulted_record s n = Some r \<and> Load_les r = Some (raw # extra)
              \<and> DecodeUint c raw = Some v \<longrightarrow> fst (vfxVersion c s n) = Inr v"
    by (simp add: vfxVersion_consulted [OF assms] vfxVersion_load_Cons)
  have b: "fst (vfxVersion c s n) = Inr 0 \<longleftrightarrow>
            (case consulted_record s n of
               None \<Rightarrow> True
             | Some r \<Rightarrow>
                 (case Load_les r of
                    None \<Rightarrow> True
                  | Some [] \<Rightarrow> True
                  | Some (raw # extra) \<Rightarrow> DecodeUint c raw = None \<or> DecodeUint c raw = Some 0))"
    by (cases "consulted_record s n")
       (simp_all add: vfxVersion_consulted [OF assms] vfxVersion_load_zero)
  show ?thesis using a b by blast
qed

theorem vfxVersion_first_field_witness:
  "udp_checked (client False None) \<and>
   fst (vfxVersion toy_codec (client False None) (les_node 1 [[2], [7, 7]])) = Inr 2"
proof -
  have ok: "udp_checked (client False None)" by (simp add: udp_checked_def client_def)
  have r: "consulted_record (client False None) (les_node 1 [[2], [7, 7]])
             = Some (les_node 1 [[2], [7, 7]])"
    by (simp add: consulted_record_def les_node_def)
  have l: "Load_les (les_node 1 [[2], [7, 7]]) = Some ([2] # [[7, 7]])"
    by (simp add: les_node_def)
  have d: "DecodeUint toy_codec [2] = Some 2" by (simp add: toy_codec_def)
  show ?thesis
    using ok vfxVersion_first_field [OF ok, of "les_node 1 [[2], [7, 7]]" toy_codec] r l d
    by blast
qed

text \<open>
  The claim that every record with a version and further fields gets its version back,
  and that 0 comes back only for an absent, unloadable or empty entry, fails twice. With
  sequence number 0 and UDP disabled the entry (version 2, one more field) is not read
  and the result is 0. With sequence number 1, an entry that loads and is not empty,
  but whose first element is not a number, also gives 0.
\<close>

theorem vfxVersion_first_field_counterexample:
  "Load_les (les_node 0 [[2], [7, 7]]) = Some [[2], [7, 7]] \<and>
   DecodeUint toy_codec [2] = Some 2 \<and>
   fst (vfxVersion toy_codec (client False None) (les_node 0 [[2], [7, 7]])) = Inr 0 \<and>
   Load_les (les_node 1 [[1, 1], [7, 7]]) = Some [[1, 1], [7, 7]] \<and>
   fst (vfxVersion toy_codec (client False None) (les_node 1 [[1, 1], [7, 7]])) = Inr 0"
  by (simp add: les_node_def toy_codec_def vfxVersion_def client_def vfxVersion_load_def
        index_go_def)

section \<open>Life cycle: results\<close>

lemma calls_perform: "calls (perform k s) = calls s @ [k]"
  by (simp add: perform_def Let_def)

lemma calls_perform_all: "calls (perform_all ks s) = calls s @ ks"
  unfolding perform_all_def
  by (induction ks arbitrary: s) (simp_all add: calls_perform)

lemma perform_all_append: "perform_all (ks @ ks') s = perform_all ks' (perform_all ks s)"
  by (simp add: perform_all_def)

lemma Stop_trace: "calls_since s (Stop s) = map InStop Stop_calls"
  by (simp add: calls_since_def Stop_def calls_perform_all)

lemma Stop_marker: "\<not> marker (Stop s)"
  by (simp add: Stop_def Stop_calls_def perform_all_def perform_def Let_def)

lemma New_Inr:
  "New e = Inr s \<Longrightarrow>
     s = perform_all (map InNew (New_until_LightChain e @ New_after_LightChain e))
           \<lparr>udpEnabled = P2P_DiscoveryV5 e, DiscV5 = Server_DiscV5 e,
            DialNode = ServerPool_DialNode e, persisted = [], calls = [],
            marker = marker_left e\<rparr>"
  by (simp add: New_def Let_def perform_all_append split: if_splits)

lemma New_calls:
  "New e = Inr s \<Longrightarrow> calls s = map InNew (New_until_LightChain e @ New_after_LightChain e)"
  by (drule New_Inr) (simp add: calls_perform_all)

lemma New_marker: "New e = Inr s \<Longrightarrow> marker s"
proof -
  assume "New e = Inr s"
  then have s: "s = perform (InNew shutdownTracker_MarkStartup)
      (perform_all (map InNew (New_until_LightChain e @ butlast (New_after_LightChain e)))
           \<lparr>udpEnabled = P2P_DiscoveryV5 e, DiscV5 = Server_DiscV5 e,
            DialNode = ServerPool_DialNode e, persisted = [], calls = [],
            marker = marker_left e\<rparr>)"
    by (simp add: New_def Let_def perform_all_def New_after_LightChain_def butlast_append
          split: if_splits)
  show ?thesis by (subst s) (simp add: perform_def Let_def)
qed

lemma Start_marker: "marker (fst (Start b s)) = marker s"
  by (simp add: Start_def Let_def perform_def perform_all_def)

lemma New_registers_child:
  "New e = Inr s \<Longrightarrow>
     precedes (InNew bloomIndexer_AddChildIndexer_bloomTrieIndexer) (InNew bloomIndexer_Start) (calls s)"
  by (drule New_calls) (simp add: New_until_LightChain_def New_after_LightChain_def)

lemma indexer_step_inv:
  "indexer_step ev p = Some p' \<Longrightarrow> downstream_begun p \<le> upstream_committed p \<Longrightarrow>
     downstream_begun p' \<le> upstream_committed p'"
  by (cases ev) (auto split: if_splits)

lemma indexer_run_inv:
  "indexer_run evs p = Some p' \<Longrightarrow> downstream_begun p \<le> upstream_committed p \<Longrightarrow>
     downstream_begun p' \<le> upstream_committed p'"
proof (induction evs arbitrary: p)
  case Nil
  then show ?case by simp
next
  case (Cons ev evs)
  then obtain q where q: "indexer_step ev p = Some q" and r: "indexer_run evs q = Some p'"
    by (auto split: option.splits)
  from indexer_step_inv [OF q Cons.prems(2)] Cons.IH [OF r] show ?case by simp
qed

lemma New_fresh_stack: "\<exists>s. New fresh_stack = Inr s"
  by (simp add: New_def fresh_stack_def Let_def)

text \<open>
  C3, as the code has it. \<open>Stop\<close> begins by closing \<open>closeCh\<close>. Stopping the server
  pool and closing the peer set and the request distributor each come before stopping
  the ODR layer and closing the bloom and CHT indexers; these each come before closing
  \<open>chainDb\<close> and \<open>lesDb\<close>; every stop or close call on another subsystem comes before
  \<open>chainDb.Close\<close>. The databases are not closed last: after \<open>chainDb.Close\<close> and
  \<open>lesDb.Close\<close> comes \<open>wg.Wait\<close>, the join of the bloom request workers, which is the
  last call of \<open>Stop\<close>. No call is made twice.
\<close>

theorem Stop_order:
  "list_all (\<lambda>a. list_all (\<lambda>b. precedes (InStop a) (InStop b) (calls_since s (Stop s)))
                 [odr_Stop, bloomIndexer_Close, chtIndexer_Close])
            [serverPool_Stop, peers_close, reqDist_close]
   \<and> list_all (\<lambda>b. list_all (\<lambda>d. precedes (InStop b) (InStop d) (calls_since s (Stop s)))
                 [chainDb_Close, lesDb_Close])
            [odr_Stop, bloomIndexer_Close, chtIndexer_Close]
   \<and> list_all (\<lambda>k. precedes (InStop k) (InStop chainDb_Close) (calls_since s (Stop s)))
            [close_closeCh, serverPool_Stop, peers_close, reqDist_close, odr_Stop, relay_Stop,
             bloomIndexer_Close, chtIndexer_Close, blockchain_Stop, handler_stop, txPool_Stop,
             engine_Close, pruner_close, eventMux_Stop, shutdownTracker_Stop]
   \<and> dropWhile (\<lambda>k. k \<noteq> InStop chainDb_Close) (calls_since s (Stop s))
        = [InStop chainDb_Close, InStop lesDb_Close, InStop wg_Wait]
   \<and> hd (calls_since s (Stop s)) = InStop close_closeCh
   \<and> last (calls_since s (Stop s)) = InStop wg_Wait
   \<and> distinct (calls_since s (Stop s))"
  by (simp add: Stop_trace Stop_calls_def)

theorem Stop_order_witness:
  "precedes (InStop serverPool_Stop) (InStop odr_Stop)
     (calls_since (client False None) (Stop (client False None)))
   \<and> precedes (InStop chtIndexer_Close) (InStop chainDb_Close)
     (calls_since (client False None) (Stop (client False None)))
   \<and> precedes (InStop eventMux_Stop) (InStop chainDb_Close)
     (calls_since (client False None) (Stop (client False None)))"
  using Stop_order [of "client False None"] by simp

text \<open>
  The claim that \<open>Stop\<close> closes the databases last, after every other subsystem has
  been stopped, fails: the wait for the bloom request workers does not come before
  \<open>chainDb.Close\<close>; it comes after \<open>lesDb.Close\<close> and is the last call, so the workers
  are only known to have ended once both databases are closed.
\<close>

theorem Stop_order_counterexample:
  "\<not> precedes (InStop wg_Wait) (InStop chainDb_Close)
       (calls_since (client False None) (Stop (client False None)))
   \<and> precedes (InStop lesDb_Close) (InStop wg_Wait)
       (calls_since (client False None) (Stop (client False None)))
   \<and> last (calls_since (client False None) (Stop (client False None))) = InStop wg_Wait
   \<and> last (calls_since (client False None) (Stop (client False None))) \<noteq> InStop lesDb_Close"
  by (simp add: Stop_trace Stop_calls_def)

text \<open>
  C4. When \<open>New\<close> succeeds, its last call is \<open>shutdownTracker.MarkStartup\<close> and the
  marker is written; the marker stays through \<open>Start\<close>, so a run that ends without
  \<open>Stop\<close> leaves it for the next start; \<open>Stop\<close> clears it, and calls
  \<open>shutdownTracker.Stop\<close> before it closes \<open>chainDb\<close> and \<open>lesDb\<close>.
\<close>

theorem startup_marker:
  "(New e = Inr s \<longrightarrow>
       last (calls s) = InNew shutdownTracker_MarkStartup \<and> marker s
       \<and> marker (fst (Start b s)) \<and> \<not> marker (Stop (fst (Start b s))))
   \<and> precedes (InStop shutdownTracker_Stop) (InStop chainDb_Close) (calls_since s' (Stop s'))
   \<and> precedes (InStop shutdownTracker_Stop) (InStop lesDb_Close) (calls_since s' (Stop s'))
   \<and> \<not> marker (Stop s')"
proof -
  have a: "New e = Inr s \<longrightarrow> last (calls s) = InNew shutdownTracker_MarkStartup"
    by (auto dest!: New_calls simp: New_after_LightChain_def)
  have b: "New e = Inr s \<longrightarrow> marker s \<and> marker (fst (Start b s))"
    by (auto dest: New_marker simp: Start_marker)
  have c: "precedes (InStop shutdownTracker_Stop) (InStop chainDb_Close) (calls_since s' (Stop s'))"
    by (simp add: Stop_trace Stop_calls_def)
  have d: "precedes (InStop shutdownTracker_Stop) (InStop lesDb_Close) (calls_since s' (Stop s'))"
    by (simp add: Stop_trace Stop_calls_def)
  show ?thesis using a b c d Stop_marker by blast
qed

theorem startup_marker_witness:
  "(case New fresh_stack of
      Inl err \<Rightarrow> False
    | Inr s \<Rightarrow> last (calls s) = InNew shutdownTracker_MarkStartup \<and> marker s
               \<and> marker (fst (Start False s)) \<and> \<not> marker (Stop (fst (Start False s))))"
proof -
  obtain s where s: "New fresh_stack = Inr s"
    using New_fresh_stack by blast
  show ?thesis
    using startup_marker [of fresh_stack s False s] s by simp
qed

text \<open>
  C7. When \<open>New\<close> succeeds, it has registered the Bloom-Trie indexer as a child of the
  bloom-bits indexer, before it starts the bloom-bits indexer; and then, in every run
  of the two indexers, every section N that the Bloom-Trie indexer has begun is a
  section that the bloom-bits indexer has committed.
\<close>

theorem bloomTrie_follows_bloom:
  assumes "New e = Inr s"
  shows "child_registered (indexers_of s)
       \<and> precedes (InNew bloomIndexer_AddChildIndexer_bloomTrieIndexer) (InNew bloomIndexer_Start) (calls s)
       \<and> (\<forall>evs p N. indexer_run evs (indexers_of s) = Some p \<and> N < downstream_begun p
              \<longrightarrow> N < upstream_committed p)"
proof -
  have a: "child_registered (indexers_of s)"
    using New_calls [OF assms] by (simp add: indexers_of_def New_after_LightChain_def)
  have c: "\<forall>evs p N. indexer_run evs (indexers_of s) = Some p \<and> N < downstream_begun p
              \<longrightarrow> N < upstream_committed p"
  proof (intro allI impI)
    fix evs p N
    assume h: "indexer_run evs (indexers_of s) = Some p \<and> N < downstream_begun p"
    have "downstream_begun p \<le> upstream_committed p"
      using indexer_run_inv [of evs "indexers_of s" p] h by (simp add: indexers_of_def)
    with h show "N < upstream_committed p" by simp
  qed
  show ?thesis using a New_registers_child [OF assms] c by blast
qed

theorem bloomTrie_follows_bloom_witness:
  "(case New fresh_stack of
      Inl err \<Rightarrow> False
    | Inr s \<Rightarrow>
        child_registered (indexers_of s)
        \<and> indexer_run [Downstream_begins] (indexers_of s) = None
        \<and> indexer_run [Upstream_commits, Downstream_begins, Downstream_commits] (indexers_of s)
            = Some \<lparr>child_registered = True, upstream_committed = 1, downstream_begun = 1,
                    downstream_committed = 1\<rparr>)"
proof -
  obtain s where s: "New fresh_stack = Inr s"
    using New_fresh_stack by blast
  have reg: "child_registered (indexers_of s)"
    using bloomTrie_follows_bloom [OF s] by blast
  show ?thesis
    using reg by (simp add: s indexers_of_def)
qed

section \<open>The mobile node wrapper: results\<close>

lemma use_defaults_MaxPeers:
  "MaxPeers (use_defaults env config0) =
     (case config0 of None \<Rightarrow> 25
      | Some cfg \<Rightarrow> if MaxPeers cfg = 0 then 25 else MaxPeers cfg)"
  by (simp add: use_defaults_def NewNodeConfig_def defaultNodeConfig_def Let_def
        split: option.splits)

lemma use_defaults_BootstrapNodes: "BootstrapNodes (use_defaults env config0) \<noteq> None"
  by (auto simp: use_defaults_def NewNodeConfig_def defaultNodeConfig_def Let_def
        split: option.splits)

lemma make_nodeConf_defaults:
  "\<exists>nc. make_nodeConf datadir (use_defaults env config0) = Inr nc
        \<and> p2p_MaxPeers (P2P nc) = MaxPeers (use_defaults env config0)"
  using use_defaults_BootstrapNodes [of env config0]
  by (cases "BootstrapNodes (use_defaults env config0)") (simp_all add: make_nodeConf_def)

lemma NewNode_node:
  "snd (NewNode env datadir config0) = Inr nd \<Longrightarrow>
     make_nodeConf datadir (use_defaults env config0) = Inr (node nd)"
  by (auto simp: NewNode_def Let_def split: sum.splits if_splits prod.splits)

lemma testnet_MaxPeers: "MaxPeers (snd (testnet spec chain netid gc)) = MaxPeers (snd gc)"
  by (cases gc) (simp add: testnet_def)

lemma testnets_MaxPeers: "MaxPeers (snd (testnets env gc)) = MaxPeers (snd gc)"
  by (simp add: testnets_def testnet_MaxPeers)

lemma load_genesis_MaxPeers:
  "load_genesis env config = Inr (g, config') \<Longrightarrow> MaxPeers config' = MaxPeers config"
  using testnets_MaxPeers [of env "(\<lparr>parsed_from = ConferoGenesis config, Config = ParsedChainConfig\<rparr>, config)"]
  by (auto simp: load_genesis_def split: if_splits prod.splits)

lemma NewNode_config_MaxPeers:
  "MaxPeers (fst (NewNode env datadir config0)) = MaxPeers (use_defaults env config0)"
  by (auto simp: NewNode_def Let_def dest: load_genesis_MaxPeers
        split: sum.splits if_splits prod.splits)

lemma toy_NewNode:
  "snd (NewNode toy_env ''/data'' (Some (zero_config 1 []))) =
     Inr \<lparr>node = \<lparr>DataDir = ''/data'',
                  P2P = \<lparr>NoDiscovery = True, DiscoveryV5 = True,
                         BootstrapNodesV5 = [\<lparr>Seq = 1, Load_les = None\<rparr>],
                         ListenAddr = '':0'', p2p_MaxPeers = 25\<rparr>\<rparr>,
          les_registered = Some \<lparr>eth_Genesis = None, NetworkId = 1, DatabaseCache = 16\<rparr>\<rparr>"
  by (simp add: NewNode_def use_defaults_def zero_config_def toy_env_def defaultNodeConfig_def
        make_nodeConf_def load_genesis_def Let_def)

lemma testnet_id:
  "ConferoNetworkID (snd (testnet spec chain netid (g, c))) =
     (if ConferoGenesis c = spec \<and> ConferoNetworkID c = 1 then netid else ConferoNetworkID c)"
  by (simp add: testnet_def)

lemma testnet_spec: "ConferoGenesis (snd (testnet spec chain netid gc)) = ConferoGenesis (snd gc)"
  by (cases gc) (simp add: testnet_def)

lemma testnets_id:
  "ConferoNetworkID (snd (testnets env (g, c))) =
     (if ConferoNetworkID c \<noteq> 1 then ConferoNetworkID c
      else if ConferoGenesis c = RopstenGenesis env then 3
      else if ConferoGenesis c = SepoliaGenesis env then 11155111
      else if ConferoGenesis c = RinkebyGenesis env then 4
      else if ConferoGenesis c = GoerliGenesis env then 5
      else 1)"
proof -
  obtain g1 c1 where 1: "testnet (RopstenGenesis env) RopstenChainConfig 3 (g, c) = (g1, c1)"
    by (cases "testnet (RopstenGenesis env) RopstenChainConfig 3 (g, c)")
  obtain g2 c2 where 2: "testnet (SepoliaGenesis env) SepoliaChainConfig 11155111 (g1, c1) = (g2, c2)"
    by (cases "testnet (SepoliaGenesis env) SepoliaChainConfig 11155111 (g1, c1)")
  obtain g3 c3 where 3: "testnet (RinkebyGenesis env) RinkebyChainConfig 4 (g2, c2) = (g3, c3)"
    by (cases "testnet (RinkebyGenesis env) RinkebyChainConfig 4 (g2, c2)")
  have i1: "ConferoNetworkID c1 = (if ConferoGenesis c = RopstenGenesis env \<and> ConferoNetworkID c = 1 then 3 else ConferoNetworkID c)"
    and s1: "ConferoGenesis c1 = ConferoGenesis c"
    using testnet_id [of "RopstenGenesis env" RopstenChainConfig 3 g c]
      testnet_spec [of "RopstenGenesis env" RopstenChainConfig 3 "(g, c)"] 1 by simp_all
  have i2: "ConferoNetworkID c2 = (if ConferoGenesis c1 = SepoliaGenesis env \<and> ConferoNetworkID c1 = 1 then 11155111 else ConferoNetworkID c1)"
    and s2: "ConferoGenesis c2 = ConferoGenesis c1"
    using testnet_id [of "SepoliaGenesis env" SepoliaChainConfig 11155111 g1 c1]
      testnet_spec [of "SepoliaGenesis env" SepoliaChainConfig 11155111 "(g1, c1)"] 2 by simp_all
  have i3: "ConferoNetworkID c3 = (if ConferoGenesis c2 = RinkebyGenesis env \<and> ConferoNetworkID c2 = 1 then 4 else ConferoNetworkID c2)"
    and s3: "ConferoGenesis c3 = ConferoGenesis c2"
    using testnet_id [of "RinkebyGenesis env" RinkebyChainConfig 4 g2 c2]
      testnet_spec [of "RinkebyGenesis env" RinkebyChainConfig 4 "(g2, c2)"] 3 by simp_all
  have i4: "ConferoNetworkID (snd (testnets env (g, c))) =
      (if ConferoGenesis c3 = GoerliGenesis env \<and> ConferoNetworkID c3 = 1 then 5 else ConferoNetworkID c3)"
    using testnet_id [of "GoerliGenesis env" GoerliChainConfig 5 g3 c3] 1 2 3
    by (simp add: testnets_def)
  show ?thesis
    by (simp add: i4 i3 i2 i1 s3 s2 s1)
qed

lemma use_defaults_Some:
  "ConferoNetworkID (use_defaults env (Some cfg)) = ConferoNetworkID cfg \<and>
   ConferoGenesis (use_defaults env (Some cfg)) = ConferoGenesis cfg"
  by (simp add: use_defaults_def Let_def)

lemma load_genesis_id:
  "load_genesis env c = Inr (g, c') \<Longrightarrow>
     ConferoNetworkID c' =
       (if ConferoGenesis c \<noteq> []
        then ConferoNetworkID (snd (testnets env (\<lparr>parsed_from = ConferoGenesis c, Config = ParsedChainConfig\<rparr>, c)))
        else ConferoNetworkID c)"
  by (auto simp: load_genesis_def split: if_splits prod.splits)

lemma NewNode_reaches:
  assumes "snd (NewNode env datadir config0) \<noteq> Inl NodeNewError"
      and "snd (NewNode env datadir config0) \<noteq> Inl InvalidGenesisSpec"
  shows "\<exists>g. load_genesis env (use_defaults env config0) = Inr (g, fst (NewNode env datadir config0))"
proof -
  obtain nc where nc: "make_nodeConf datadir (use_defaults env config0) = Inr nc"
    using make_nodeConf_defaults by blast
  have new: "\<not> node_New_fails env nc"
    using assms(1) by (auto simp: NewNode_def Let_def nc)
  have "load_genesis env (use_defaults env config0) \<noteq> Inl InvalidGenesisSpec"
    using assms(2) new by (auto simp: NewNode_def Let_def nc)
  then obtain g c' where l: "load_genesis env (use_defaults env config0) = Inr (g, c')"
    by (cases "load_genesis env (use_defaults env config0)")
       (auto simp: load_genesis_def split: if_splits prod.splits)
  have "fst (NewNode env datadir config0) = c'"
    by (simp add: NewNode_def Let_def nc new l)
  with l show ?thesis by blast
qed

lemma NewNode_id:
  assumes "snd (NewNode env datadir (Some cfg)) \<noteq> Inl NodeNewError"
      and "snd (NewNode env datadir (Some cfg)) \<noteq> Inl InvalidGenesisSpec"
  shows "ConferoNetworkID (fst (NewNode env datadir (Some cfg))) =
           (if ConferoGenesis cfg = [] \<or> ConferoNetworkID cfg \<noteq> 1 then ConferoNetworkID cfg
            else if ConferoGenesis cfg = RopstenGenesis env then 3
            else if ConferoGenesis cfg = SepoliaGenesis env then 11155111
            else if ConferoGenesis cfg = RinkebyGenesis env then 4
            else if ConferoGenesis cfg = GoerliGenesis env then 5
            else 1)"
proof -
  obtain g where "load_genesis env (use_defaults env (Some cfg))
                    = Inr (g, fst (NewNode env datadir (Some cfg)))"
    using NewNode_reaches [OF assms] by blast
  from load_genesis_id [OF this] show ?thesis
    by (simp add: testnets_id use_defaults_Some)
qed

lemma NewNode_id_unchanged:
  assumes "ConferoNetworkID cfg \<noteq> 1"
  shows "ConferoNetworkID (fst (NewNode env datadir (Some cfg))) = ConferoNetworkID cfg"
proof -
  obtain nc where nc: "make_nodeConf datadir (use_defaults env (Some cfg)) = Inr nc"
    using make_nodeConf_defaults by blast
  have l: "\<And>g c'. load_genesis env (use_defaults env (Some cfg)) = Inr (g, c') \<Longrightarrow>
             ConferoNetworkID c' = ConferoNetworkID cfg"
    using assms by (auto dest!: load_genesis_id simp: testnets_id use_defaults_Some)
  show ?thesis
    using l by (auto simp: NewNode_def Let_def nc use_defaults_Some split: sum.splits)
qed

lemma NewNode_registered_id:
  "snd (NewNode env datadir config0) = Inr nd \<Longrightarrow> les_registered nd = Some ec \<Longrightarrow>
     NetworkId ec = ConferoNetworkID (fst (NewNode env datadir config0))"
  by (auto simp: NewNode_def Let_def split: sum.splits if_splits prod.splits)

lemma toy_NewNode_sepolia:
  "NewNode toy_env ''/data'' (Some (zero_config 1 ''{sepolia}'')) =
     (\<lparr>BootstrapNodes = Some [\<lparr>Seq = 1, Load_les = None\<rparr>], MaxPeers = 25,
       ConferoEnabled = True, ConferoNetworkID = 11155111, ConferoGenesis = ''{sepolia}'',
       ConferoDatabaseCache = 16, ConferoNetStats = [], PprofAddress = []\<rparr>,
      Inr \<lparr>node = \<lparr>DataDir = ''/data'',
                   P2P = \<lparr>NoDiscovery = True, DiscoveryV5 = True,
                          BootstrapNodesV5 = [\<lparr>Seq = 1, Load_les = None\<rparr>],
                          ListenAddr = '':0'', p2p_MaxPeers = 25\<rparr>\<rparr>,
           les_registered = Some \<lparr>eth_Genesis = Some \<lparr>parsed_from = ''{sepolia}'', Config = SepoliaChainConfig\<rparr>,
                                  NetworkId = 11155111, DatabaseCache = 16\<rparr>\<rparr>)"
  by (simp add: NewNode_def use_defaults_def zero_config_def toy_env_def defaultNodeConfig_def
        make_nodeConf_def load_genesis_def testnets_def testnet_def Let_def)

text \<open>
  C8. A configuration with \<open>MaxPeers\<close> 0 has it replaced by 25: in the configuration
  that \<open>NewNode\<close> leaves, in the p2p configuration that it builds, and in every node
  that it returns. No node that \<open>NewNode\<close> returns, for any configuration or none, has
  a peer limit of 0.
\<close>

theorem NewNode_MaxPeers_zero:
  "(MaxPeers cfg = 0 \<longrightarrow>
      MaxPeers (fst (NewNode env datadir (Some cfg))) = 25
      \<and> (\<exists>nc. make_nodeConf datadir (use_defaults env (Some cfg)) = Inr nc
               \<and> p2p_MaxPeers (P2P nc) = 25)
      \<and> (\<forall>nd. snd (NewNode env datadir (Some cfg)) = Inr nd \<longrightarrow> p2p_MaxPeers (P2P (node nd)) = 25))
   \<and> (\<forall>nd. snd (NewNode env datadir config0) = Inr nd \<longrightarrow> p2p_MaxPeers (P2P (node nd)) \<noteq> 0)"
proof -
  have any: "\<And>c0 nd. snd (NewNode env datadir c0) = Inr nd \<Longrightarrow>
               p2p_MaxPeers (P2P (node nd)) = MaxPeers (use_defaults env c0)"
    using make_nodeConf_defaults NewNode_node by (metis sum.inject(2))
  have a: "MaxPeers cfg = 0 \<longrightarrow> MaxPeers (fst (NewNode env datadir (Some cfg))) = 25"
    by (simp add: NewNode_config_MaxPeers use_defaults_MaxPeers)
  have b: "MaxPeers cfg = 0 \<longrightarrow>
             (\<exists>nc. make_nodeConf datadir (use_defaults env (Some cfg)) = Inr nc
                   \<and> p2p_MaxPeers (P2P nc) = 25)"
    using make_nodeConf_defaults [of datadir env "Some cfg"]
    by (auto simp: use_defaults_MaxPeers)
  have c: "MaxPeers cfg = 0 \<longrightarrow>
             (\<forall>nd. snd (NewNode env datadir (Some cfg)) = Inr nd \<longrightarrow> p2p_MaxPeers (P2P (node nd)) = 25)"
    by (simp add: any use_defaults_MaxPeers)
  have d: "\<forall>nd. snd (NewNode env datadir config0) = Inr nd \<longrightarrow> p2p_MaxPeers (P2P (node nd)) \<noteq> 0"
    by (simp add: any use_defaults_MaxPeers split: option.splits)
  show ?thesis using a b c d by blast
qed

theorem NewNode_MaxPeers_zero_witness:
  "MaxPeers (zero_config 1 []) = 0 \<and>
   (case snd (NewNode toy_env ''/data'' (Some (zero_config 1 []))) of
      Inl err \<Rightarrow> False
    | Inr nd \<Rightarrow> p2p_MaxPeers (P2P (node nd)) = 25)"
proof -
  have z: "MaxPeers (zero_config 1 []) = 0" by (simp add: zero_config_def)
  show ?thesis
    using z NewNode_MaxPeers_zero [of "zero_config 1 []" toy_env "''/data''" None] toy_NewNode
    by simp
qed

text \<open>
  C9. Let the four testnet genesis strings be different and not empty, and let
  \<open>NewNode\<close> get past \<open>node.New\<close> and the parsing of the genesis string. Then a
  configuration with network ID 1 and the Ropsten, Sepolia, Rinkeby or Goerli genesis
  is left with network ID 3, 11155111, 4 or 5. A network ID other than 1 is left as it
  is, whatever the genesis string and the outcome. The light protocol, when it is
  registered, gets the network ID that the configuration is left with.
\<close>

theorem NewNode_testnet_network_id:
  "(distinct [RopstenGenesis env, SepoliaGenesis env, RinkebyGenesis env, GoerliGenesis env]
      \<and> [] \<notin> set [RopstenGenesis env, SepoliaGenesis env, RinkebyGenesis env, GoerliGenesis env]
      \<and> snd (NewNode env datadir (Some cfg)) \<noteq> Inl NodeNewError
      \<and> snd (NewNode env datadir (Some cfg)) \<noteq> Inl InvalidGenesisSpec
      \<and> ConferoNetworkID cfg = 1
    \<longrightarrow> (ConferoGenesis cfg = RopstenGenesis env
            \<longrightarrow> ConferoNetworkID (fst (NewNode env datadir (Some cfg))) = 3)
        \<and> (ConferoGenesis cfg = SepoliaGenesis env
            \<longrightarrow> ConferoNetworkID (fst (NewNode env datadir (Some cfg))) = 11155111)
        \<and> (ConferoGenesis cfg = RinkebyGenesis env
            \<longrightarrow> ConferoNetworkID (fst (NewNode env datadir (Some cfg))) = 4)
        \<and> (ConferoGenesis cfg = GoerliGenesis env
            \<longrightarrow> ConferoNetworkID (fst (NewNode env datadir (Some cfg))) = 5))
   \<and> (ConferoNetworkID cfg \<noteq> 1
        \<longrightarrow> ConferoNetworkID (fst (NewNode env datadir (Some cfg))) = ConferoNetworkID cfg)
   \<and> (\<forall>nd ec. snd (NewNode env datadir (Some cfg)) = Inr nd \<and> les_registered nd = Some ec
        \<longrightarrow> NetworkId ec = ConferoNetworkID (fst (NewNode env datadir (Some cfg))))"
proof -
  have a: "distinct [RopstenGenesis env, SepoliaGenesis env, RinkebyGenesis env, GoerliGenesis env]
      \<and> [] \<notin> set [RopstenGenesis env, SepoliaGenesis env, RinkebyGenesis env, GoerliGenesis env]
      \<and> snd (NewNode env datadir (Some cfg)) \<noteq> Inl NodeNewError
      \<and> snd (NewNode env datadir (Some cfg)) \<noteq> Inl InvalidGenesisSpec
      \<and> ConferoNetworkID cfg = 1
    \<longrightarrow> (ConferoGenesis cfg = RopstenGenesis env
            \<longrightarrow> ConferoNetworkID (fst (NewNode env datadir (Some cfg))) = 3)
        \<and> (ConferoGenesis cfg = SepoliaGenesis env
            \<longrightarrow> ConferoNetworkID (fst (NewNode env datadir (Some cfg))) = 11155111)
        \<and> (ConferoGenesis cfg = RinkebyGenesis env
            \<longrightarrow> ConferoNetworkID (fst (NewNode env datadir (Some cfg))) = 4)
        \<and> (ConferoGenesis cfg = GoerliGenesis env
            \<longrightarrow> ConferoNetworkID (fst (NewNode env datadir (Some cfg))) = 5)"
    by (auto simp: NewNode_id)
  have b: "ConferoNetworkID cfg \<noteq> 1
        \<longrightarrow> ConferoNetworkID (fst (NewNode env datadir (Some cfg))) = ConferoNetworkID cfg"
    by (simp add: NewNode_id_unchanged)
  have c: "\<forall>nd ec. snd (NewNode env datadir (Some cfg)) = Inr nd \<and> les_registered nd = Some ec
        \<longrightarrow> NetworkId ec = ConferoNetworkID (fst (NewNode env datadir (Some cfg)))"
    by (auto dest: NewNode_registered_id)
  show ?thesis using a b c by blast
qed

theorem NewNode_testnet_network_id_witness:
  "ConferoNetworkID (fst (NewNode toy_env ''/data'' (Some (zero_config 1 ''{sepolia}'')))) = 11155111
   \<and> ConferoNetworkID (fst (NewNode toy_env ''/data'' (Some (zero_config 7 ''{sepolia}'')))) = 7"
proof -
  have d: "distinct [RopstenGenesis toy_env, SepoliaGenesis toy_env, RinkebyGenesis toy_env, GoerliGenesis toy_env]
      \<and> [] \<notin> set [RopstenGenesis toy_env, SepoliaGenesis toy_env, RinkebyGenesis toy_env, GoerliGenesis toy_env]"
    by (simp add: toy_env_def)
  have r: "snd (NewNode toy_env ''/data'' (Some (zero_config 1 ''{sepolia}''))) \<noteq> Inl NodeNewError
      \<and> snd (NewNode toy_env ''/data'' (Some (zero_config 1 ''{sepolia}''))) \<noteq> Inl InvalidGenesisSpec"
    by (simp add: toy_NewNode_sepolia)
  have c: "ConferoNetworkID (zero_config 1 ''{sepolia}'') = 1
      \<and> ConferoGenesis (zero_config 1 ''{sepolia}'') = SepoliaGenesis toy_env"
    by (simp add: zero_config_def toy_env_def)
  have 1: "ConferoNetworkID (fst (NewNode toy_env ''/data'' (Some (zero_config 1 ''{sepolia}'')))) = 11155111"
    using NewNode_testnet_network_id [of toy_env "''/data''" "zero_config 1 ''{sepolia}''"] d r c
    by blast
  have n: "ConferoNetworkID (zero_config 7 ''{sepolia}'') = 7" "(7 :: 64 word) \<noteq> 1"
    by (simp_all add: zero_config_def)
  have 2: "ConferoNetworkID (fst (NewNode toy_env ''/data'' (Some (zero_config 7 ''{sepolia}'')))) = 7"
    using NewNode_testnet_network_id [of toy_env "''/data''" "zero_config 7 ''{sepolia}''"] n
    by simp
  show ?thesis using 1 2 by simp
qed

section \<open>The Trezor messages: results\<close>

lemma getter_value_nil: "getter_value None f z = Inr z"
  by (simp add: getter_value_def)

lemma getter_pointer_nil: "getter_pointer None f z = Inr z"
  by (simp add: getter_pointer_def)

lemma getter_value_Some: "getter_value (Some r) f z = Inr (f r)"
  by (simp add: getter_value_def get_field_def)

lemma getter_pointer_Some:
  "getter_pointer (Some r) f z = Inr (case f r of None \<Rightarrow> z | Some v \<Rightarrow> v)"
  by (simp add: getter_pointer_def get_field_def deref_def split: option.splits)

lemma getter_value_total: "\<exists>v. getter_value m f z = Inr v"
  by (cases m) (simp_all add: getter_value_nil getter_value_Some)

lemma getter_pointer_total: "\<exists>v. getter_pointer m f z = Inr v"
  by (cases m) (simp_all add: getter_pointer_nil getter_pointer_Some)

lemmas getter_defs =
  ConferoGetPublicKey_GetAddressN_def
  ConferoGetPublicKey_GetShowDisplay_def
  ConferoPublicKey_GetNode_def
  ConferoPublicKey_GetXpub_def
  ConferoGetAddress_GetAddressN_def
  ConferoGetAddress_GetShowDisplay_def
  ConferoAddress_GetAddressBin_def
  ConferoAddress_GetAddressHex_def
  ConferoSignTx_GetAddressN_def
  ConferoSignTx_GetNonce_def
  ConferoSignTx_GetGasPrice_def
  ConferoSignTx_GetGasLimit_def
  ConferoSignTx_GetToBin_def
  ConferoSignTx_GetToHex_def
  ConferoSignTx_GetValue_def
  ConferoSignTx_GetDataInitialChunk_def
  ConferoSignTx_GetDataLength_def
  ConferoSignTx_GetChainId_def
  ConferoSignTx_GetTxType_def
  ConferoTxRequest_GetDataLength_def
  ConferoTxRequest_GetSignatureV_def
  ConferoTxRequest_GetSignatureR_def
  ConferoTxRequest_GetSignatureS_def
  ConferoTxAck_GetDataChunk_def
  ConferoSignMessage_GetAddressN_def
  ConferoSignMessage_GetMessage_def
  ConferoMessageSignature_GetAddressBin_def
  ConferoMessageSignature_GetSignature_def
  ConferoMessageSignature_GetAddressHex_def
  ConferoVerifyMessage_GetAddressBin_def
  ConferoVerifyMessage_GetSignature_def
  ConferoVerifyMessage_GetMessage_def
  ConferoVerifyMessage_GetAddressHex_def

lemma getters_nil:
  "ConferoGetPublicKey_GetAddressN None = Inr None
   \<and> ConferoGetPublicKey_GetShowDisplay None = Inr False
   \<and> ConferoPublicKey_GetNode None = Inr None
   \<and> ConferoPublicKey_GetXpub None = Inr []
   \<and> ConferoGetAddress_GetAddressN None = Inr None
   \<and> ConferoGetAddress_GetShowDisplay None = Inr False
   \<and> ConferoAddress_GetAddressBin None = Inr None
   \<and> ConferoAddress_GetAddressHex None = Inr []
   \<and> ConferoSignTx_GetAddressN None = Inr None
   \<and> ConferoSignTx_GetNonce None = Inr None
   \<and> ConferoSignTx_GetGasPrice None = Inr None
   \<and> ConferoSignTx_GetGasLimit None = Inr None
   \<and> ConferoSignTx_GetToBin None = Inr None
   \<and> ConferoSignTx_GetToHex None = Inr []
   \<and> ConferoSignTx_GetValue None = Inr None
   \<and> ConferoSignTx_GetDataInitialChunk None = Inr None
   \<and> ConferoSignTx_GetDataLength None = Inr 0
   \<and> ConferoSignTx_GetChainId None = Inr 0
   \<and> ConferoSignTx_GetTxType None = Inr 0
   \<and> ConferoTxRequest_GetDataLength None = Inr 0
   \<and> ConferoTxRequest_GetSignatureV None = Inr 0
   \<and> ConferoTxRequest_GetSignatureR None = Inr None
   \<and> ConferoTxRequest_GetSignatureS None = Inr None
   \<and> ConferoTxAck_GetDataChunk None = Inr None
   \<and> ConferoSignMessage_GetAddressN None = Inr None
   \<and> ConferoSignMessage_GetMessage None = Inr None
   \<and> ConferoMessageSignature_GetAddressBin None = Inr None
   \<and> ConferoMessageSignature_GetSignature None = Inr None
   \<and> ConferoMessageSignature_GetAddressHex None = Inr []
   \<and> ConferoVerifyMessage_GetAddressBin None = Inr None
   \<and> ConferoVerifyMessage_GetSignature None = Inr None
   \<and> ConferoVerifyMessage_GetMessage None = Inr None
   \<and> ConferoVerifyMessage_GetAddressHex None = Inr []"
  by (simp add: getter_defs getter_value_nil getter_pointer_nil)

lemma getters_never_panic:
  "(\<exists>v. ConferoGetPublicKey_GetAddressN m_GetPublicKey = Inr v)
   \<and> (\<exists>v. ConferoGetPublicKey_GetShowDisplay m_GetPublicKey = Inr v)
   \<and> (\<exists>v. ConferoPublicKey_GetNode m_PublicKey = Inr v)
   \<and> (\<exists>v. ConferoPublicKey_GetXpub m_PublicKey = Inr v)
   \<and> (\<exists>v. ConferoGetAddress_GetAddressN m_GetAddress = Inr v)
   \<and> (\<exists>v. ConferoGetAddress_GetShowDisplay m_GetAddress = Inr v)
   \<and> (\<exists>v. ConferoAddress_GetAddressBin m_Address = Inr v)
   \<and> (\<exists>v. ConferoAddress_GetAddressHex m_Address = Inr v)
   \<and> (\<exists>v. ConferoSignTx_GetAddressN m_SignTx = Inr v)
   \<and> (\<exists>v. ConferoSignTx_GetNonce m_SignTx = Inr v)
   \<and> (\<exists>v. ConferoSignTx_GetGasPrice m_SignTx = Inr v)
   \<and> (\<exists>v. ConferoSignTx_GetGasLimit m_SignTx = Inr v)
   \<and> (\<exists>v. ConferoSignTx_GetToBin m_SignTx = Inr v)
   \<and> (\<exists>v. ConferoSignTx_GetToHex m_SignTx = Inr v)
   \<and> (\<exists>v. ConferoSignTx_GetValue m_SignTx = Inr v)
   \<and> (\<exists>v. ConferoSignTx_GetDataInitialChunk m_SignTx = Inr v)
   \<and> (\<exists>v. ConferoSignTx_GetDataLength m_SignTx = Inr v)
   \<and> (\<exists>v. ConferoSignTx_GetChainId m_SignTx = Inr v)
   \<and> (\<exists>v. ConferoSignTx_GetTxType m_SignTx = Inr v)
   \<and> (\<exists>v. ConferoTxRequest_GetDataLength m_TxRequest = Inr v)
   \<and> (\<exists>v. ConferoTxRequest_GetSignatureV m_TxRequest = Inr v)
   \<and> (\<exists>v. ConferoTxRequest_GetSignatureR m_TxRequest = Inr v)
   \<and> (\<exists>v. ConferoTxRequest_GetSignatureS m_TxRequest = Inr v)
   \<and> (\<exists>v. ConferoTxAck_GetDataChunk m_TxAck = Inr v)
   \<and> (\<exists>v. ConferoSignMessage_GetAddressN m_SignMessage = Inr v)
   \<and> (\<exists>v. ConferoSignMessage_GetMessage m_SignMessage = Inr v)
   \<and> (\<exists>v. ConferoMessageSignature_GetAddressBin m_MessageSignature = Inr v)
   \<and> (\<exists>v. ConferoMessageSignature_GetSignature m_MessageSignature = Inr v)
   \<and> (\<exists>v. ConferoMessageSignature_GetAddressHex m_MessageSignature = Inr v)
   \<and> (\<exists>v. ConferoVerifyMessage_GetAddressBin m_VerifyMessage = Inr v)
   \<and> (\<exists>v. ConferoVerifyMessage_GetSignature m_VerifyMessage = Inr v)
   \<and> (\<exists>v. ConferoVerifyMessage_GetMessage m_VerifyMessage = Inr v)
   \<and> (\<exists>v. ConferoVerifyMessage_GetAddressHex m_VerifyMessage = Inr v)"
  by (simp add: getter_defs getter_value_total getter_pointer_total)

lemma getters_unset:
  "ConferoGetPublicKey_GetShowDisplay (Some (r_GetPublicKey\<lparr>GetPublicKey_ShowDisplay := None\<rparr>)) = Inr False
   \<and> ConferoPublicKey_GetXpub (Some (r_PublicKey\<lparr>PublicKey_Xpub := None\<rparr>)) = Inr []
   \<and> ConferoGetAddress_GetShowDisplay (Some (r_GetAddress\<lparr>GetAddress_ShowDisplay := None\<rparr>)) = Inr False
   \<and> ConferoAddress_GetAddressHex (Some (r_Address\<lparr>Address_AddressHex := None\<rparr>)) = Inr []
   \<and> ConferoSignTx_GetToHex (Some (r_SignTx\<lparr>SignTx_ToHex := None\<rparr>)) = Inr []
   \<and> ConferoSignTx_GetDataLength (Some (r_SignTx\<lparr>SignTx_DataLength := None\<rparr>)) = Inr 0
   \<and> ConferoSignTx_GetChainId (Some (r_SignTx\<lparr>SignTx_ChainId := None\<rparr>)) = Inr 0
   \<and> ConferoSignTx_GetTxType (Some (r_SignTx\<lparr>SignTx_TxType := None\<rparr>)) = Inr 0
   \<and> ConferoTxRequest_GetDataLength (Some (r_TxRequest\<lparr>TxRequest_DataLength := None\<rparr>)) = Inr 0
   \<and> ConferoTxRequest_GetSignatureV (Some (r_TxRequest\<lparr>TxRequest_SignatureV := None\<rparr>)) = Inr 0
   \<and> ConferoMessageSignature_GetAddressHex (Some (r_MessageSignature\<lparr>MessageSignature_AddressHex := None\<rparr>)) = Inr []
   \<and> ConferoVerifyMessage_GetAddressHex (Some (r_VerifyMessage\<lparr>VerifyMessage_AddressHex := None\<rparr>)) = Inr []"
  by (simp add: getter_defs getter_pointer_Some)

text \<open>
  C10. Every getter of the ten message types returns the zero value of its field's
  type on a nil receiver; returns without a panic on every receiver; and, for an
  optional scalar field, returns the zero value when the field is unset.
\<close>

theorem getters_total:
  "(ConferoGetPublicKey_GetAddressN None = Inr None
    \<and> ConferoGetPublicKey_GetShowDisplay None = Inr False
    \<and> ConferoPublicKey_GetNode None = Inr None
    \<and> ConferoPublicKey_GetXpub None = Inr []
    \<and> ConferoGetAddress_GetAddressN None = Inr None
    \<and> ConferoGetAddress_GetShowDisplay None = Inr False
    \<and> ConferoAddress_GetAddressBin None = Inr None
    \<and> ConferoAddress_GetAddressHex None = Inr []
    \<and> ConferoSignTx_GetAddressN None = Inr None
    \<and> ConferoSignTx_GetNonce None = Inr None
    \<and> ConferoSignTx_GetGasPrice None = Inr None
    \<and> ConferoSignTx_GetGasLimit None = Inr None
    \<and> ConferoSignTx_GetToBin None = Inr None
    \<and> ConferoSignTx_GetToHex None = Inr []
    \<and> ConferoSignTx_GetValue None = Inr None
    \<and> ConferoSignTx_GetDataInitialChunk None = Inr None
    \<and> ConferoSignTx_GetDataLength None = Inr 0
    \<and> ConferoSignTx_GetChainId None = Inr 0
    \<and> ConferoSignTx_GetTxType None = Inr 0
    \<and> ConferoTxRequest_GetDataLength None = Inr 0
    \<and> ConferoTxRequest_GetSignatureV None = Inr 0
    \<and> ConferoTxRequest_GetSignatureR None = Inr None
    \<and> ConferoTxRequest_GetSignatureS None = Inr None
    \<and> ConferoTxAck_GetDataChunk None = Inr None
    \<and> ConferoSignMessage_GetAddressN None = Inr None
    \<and> ConferoSignMessage_GetMessage None = Inr None
    \<and> ConferoMessageSignature_GetAddressBin None = Inr None
    \<and> ConferoMessageSignature_GetSignature None = Inr None
    \<and> ConferoMessageSignature_GetAddressHex None = Inr []
    \<and> ConferoVerifyMessage_GetAddressBin None = Inr None
    \<and> ConferoVerifyMessage_GetSignature None = Inr None
    \<and> ConferoVerifyMessage_GetMessage None = Inr None
    \<and> ConferoVerifyMessage_GetAddressHex None = Inr [])
   \<and> ((\<exists>v. ConferoGetPublicKey_GetAddressN m_GetPublicKey = Inr v)
    \<and> (\<exists>v. ConferoGetPublicKey_GetShowDisplay m_GetPublicKey = Inr v)
    \<and> (\<exists>v. ConferoPublicKey_GetNode m_PublicKey = Inr v)
    \<and> (\<exists>v. ConferoPublicKey_GetXpub m_PublicKey = Inr v)
    \<and> (\<exists>v. ConferoGetAddress_GetAddressN m_GetAddress = Inr v)
    \<and> (\<exists>v. ConferoGetAddress_GetShowDisplay m_GetAddress = Inr v)
    \<and> (\<exists>v. ConferoAddress_GetAddressBin m_Address = Inr v)
    \<and> (\<exists>v. ConferoAddress_GetAddressHex m_Address = Inr v)
    \<and> (\<exists>v. ConferoSignTx_GetAddressN m_SignTx = Inr v)
    \<and> (\<exists>v. ConferoSignTx_GetNonce m_SignTx = Inr v)
    \<and> (\<exists>v. ConferoSignTx_GetGasPrice m_SignTx = Inr v)
    \<and> (\<exists>v. ConferoSignTx_GetGasLimit m_SignTx = Inr v)
    \<and> (\<exists>v. ConferoSignTx_GetToBin m_SignTx = Inr v)
    \<and> (\<exists>v. ConferoSignTx_GetToHex m_SignTx = Inr v)
    \<and> (\<exists>v. ConferoSignTx_GetValue m_SignTx = Inr v)
    \<and> (\<exists>v. ConferoSignTx_GetDataInitialChunk m_SignTx = Inr v)
    \<and> (\<exists>v. ConferoSignTx_GetDataLength m_SignTx = Inr v)
    \<and> (\<exists>v. ConferoSignTx_GetChainId m_SignTx = Inr v)
    \<and> (\<exists>v. ConferoSignTx_GetTxType m_SignTx = Inr v)
    \<and> (\<exists>v. ConferoTxRequest_GetDataLength m_TxRequest = Inr v)
    \<and> (\<exists>v. ConferoTxRequest_GetSignatureV m_TxRequest = Inr v)
    \<and> (\<exists>v. ConferoTxRequest_GetSignatureR m_TxRequest = Inr v)
    \<and> (\<exists>v. ConferoTxRequest_GetSignatureS m_TxRequest = Inr v)
    \<and> (\<exists>v. ConferoTxAck_GetDataChunk m_TxAck = Inr v)
    \<and> (\<exists>v. ConferoSignMessage_GetAddressN m_SignMessage = Inr v)
    \<and> (\<exists>v. ConferoSignMessage_GetMessage m_SignMessage = Inr v)
    \<and> (\<exists>v. ConferoMessageSignature_GetAddressBin m_MessageSignature = Inr v)
    \<and> (\<exists>v. ConferoMessageSignature_GetSignature m_MessageSignature = Inr v)
    \<and> (\<exists>v. ConferoMessageSignature_GetAddressHex m_MessageSignature = Inr v)
    \<and> (\<exists>v. ConferoVerifyMessage_GetAddressBin m_VerifyMessage = Inr v)
    \<and> (\<exists>v. ConferoVerifyMessage_GetSignature m_VerifyMessage = Inr v)
    \<and> (\<exists>v. ConferoVerifyMessage_GetMessage m_VerifyMessage = Inr v)
    \<and> (\<exists>v. ConferoVerifyMessage_GetAddressHex m_VerifyMessage = Inr v))
   \<and> (ConferoGetPublicKey_GetShowDisplay (Some (r_GetPublicKey\<lparr>GetPublicKey_ShowDisplay := None\<rparr>)) = Inr False
    \<and> ConferoPublicKey_GetXpub (Some (r_PublicKey\<lparr>PublicKey_Xpub := None\<rparr>)) = Inr []
    \<and> ConferoGetAddress_GetShowDisplay (Some (r_GetAddress\<lparr>GetAddress_ShowDisplay := None\<rparr>)) = Inr False
    \<and> ConferoAddress_GetAddressHex (Some (r_Address\<lparr>Address_AddressHex := None\<rparr>)) = Inr []
    \<and> ConferoSignTx_GetToHex (Some (r_SignTx\<lparr>SignTx_ToHex := None\<rparr>)) = Inr []
    \<and> ConferoSignTx_GetDataLength (Some (r_SignTx\<lparr>SignTx_DataLength := None\<rparr>)) = Inr 0
    \<and> ConferoSignTx_GetChainId (Some (r_SignTx\<lparr>SignTx_ChainId := None\<rparr>)) = Inr 0
    \<and> ConferoSignTx_GetTxType (Some (r_SignTx\<lparr>SignTx_TxType := None\<rparr>)) = Inr 0
    \<and> ConferoTxRequest_GetDataLength (Some (r_TxRequest\<lparr>TxRequest_DataLength := None\<rparr>)) = Inr 0
    \<and> ConferoTxRequest_GetSignatureV (Some (r_TxRequest\<lparr>TxRequest_SignatureV := None\<rparr>)) = Inr 0
    \<and> ConferoMessageSignature_GetAddressHex (Some (r_MessageSignature\<lparr>MessageSignature_AddressHex := None\<rparr>)) = Inr []
    \<and> ConferoVerifyMessage_GetAddressHex (Some (r_VerifyMessage\<lparr>VerifyMessage_AddressHex := None\<rparr>)) = Inr [])"
  using getters_nil getters_never_panic getters_unset by blast

theorem getters_total_witness:
  "ConferoSignTx_GetDataLength None = Inr 0
   \<and> ConferoSignTx_GetDataLength
        (Some \<lparr>SignTx_AddressN = None, SignTx_Nonce = None, SignTx_GasPrice = None,
               SignTx_GasLimit = None, SignTx_ToBin = None, SignTx_ToHex = None,
               SignTx_Value = None, SignTx_DataInitialChunk = None, SignTx_DataLength = None,
               SignTx_ChainId = Some 5, SignTx_TxType = None\<rparr>) = Inr 0
   \<and> ConferoSignTx_GetChainId
        (Some \<lparr>SignTx_AddressN = None, SignTx_Nonce = None, SignTx_GasPrice = None,
               SignTx_GasLimit = None, SignTx_ToBin = None, SignTx_ToHex = None,
               SignTx_Value = None, SignTx_DataInitialChunk = None, SignTx_DataLength = None,
               SignTx_ChainId = Some 5, SignTx_TxType = None\<rparr>) = Inr 5"
proof -
  let ?m = "\<lparr>SignTx_AddressN = None, SignTx_Nonce = None, SignTx_GasPrice = None,
               SignTx_GasLimit = None, SignTx_ToBin = None, SignTx_ToHex = None,
               SignTx_Value = None, SignTx_DataInitialChunk = None, SignTx_DataLength = None,
               SignTx_ChainId = Some 5, SignTx_TxType = None\<rparr>"
  have u: "?m\<lparr>SignTx_DataLength := None\<rparr> = ?m" by simp
  have a: "ConferoSignTx_GetDataLength None = Inr 0"
    using getters_total by blast
  have b: "ConferoSignTx_GetDataLength (Some (?m\<lparr>SignTx_DataLength := None\<rparr>)) = Inr 0"
    using getters_total [where r_SignTx = ?m] by blast
  have c: "ConferoSignTx_GetChainId (Some ?m) = Inr 5"
    by (simp add: ConferoSignTx_GetChainId_def getter_pointer_Some)
  show ?thesis using a b c u by simp
qed

end
